theory Spec2Isabelle
  imports Complex_Main "HOL-Library.Word"
begin

section \<open>CalculateAlbedo: per-pixel narrow-band and broadband albedo\<close>

text \<open>
  A shallow embedding of \<^verbatim>\<open>CalculateAlbedo\<close> (albedo/CalculateAlbedo.c).

  Conventions of the embedding:
  \<^item> a C \<^verbatim>\<open>double\<close> is a real number; the one IEEE special case the code can reach
    without leaving defined behaviour, the division by a zero scale factor, is written out
    (see \<open>over_limit\<close>);
  \<^item> an \<^verbatim>\<open>int16\<close> is a \<open>16 word\<close> read with \<open>sint\<close>; a \<^verbatim>\<open>double\<close> stored into an
    \<^verbatim>\<open>int16\<close> is truncated towards zero and reduced to 16 bits (\<open>int16_of_double\<close>);
  \<^item> the arrays behind the pointers of the sensor context and the output vector are total
    functions from indices; the function returns the updated ones;
  \<^item> \<^verbatim>\<open>exit (1)\<close> is the outcome \<open>Exited\<close>; every \<^verbatim>\<open>return\<close> is an outcome
    \<open>Returned\<close> carrying what the caller can observe afterwards.
\<close>

subsection \<open>Data model\<close>

text \<open>
  Modelled from the spec: the instrument enumeration of \<^verbatim>\<open>lndsr_albedo.h\<close> (the header
  is not part of the sources at hand): two legacy multispectral instruments, one
  operational land imager (\<^verbatim>\<open>_OLI_\<close>) and one multispectral imager (\<^verbatim>\<open>MSI\<close>).
\<close>

datatype instrument = TM | ETM | OLI | MSI

text \<open>
  The fields of \<^verbatim>\<open>DIS_LANDSAT\<close> that \<^verbatim>\<open>CalculateAlbedo\<close> reads or writes.
  \<open>OneRowlndSR\<close> is indexed by band and column, \<open>BRDF_paras\<close> by class, MODIS band and
  kernel weight, \<open>Clsdata\<close> by column, \<open>pure_thrsh\<close> by class.
\<close>

record sensor =
  instrument :: instrument
  nbands :: int
  lndSR_ScaFct :: real
  SR_fillValue :: int
  SZA :: real
  SAA :: real
  pix_VZA :: real
  pix_VAA :: real
  Clsdata :: "nat \<Rightarrow> int"
  Cls_fillValue :: int
  actu_ncls :: int
  pure_thrsh :: "int \<Rightarrow> real"
  BRDF_paras :: "int \<Rightarrow> nat \<Rightarrow> nat \<Rightarrow> real"
  OneRowlndSR :: "nat \<Rightarrow> nat \<Rightarrow> 16 word"

text \<open>
  What the function uses and the sources at hand do not define: the two external functions
  \<^verbatim>\<open>CalculateANratio\<close> (\<open>None\<close> when it does not return \<^verbatim>\<open>SUCCESS\<close>, otherwise the
  pair written to \<^verbatim>\<open>tmp_ANR_wsa\<close> and \<^verbatim>\<open>tmp_ANR_bsa\<close>) and \<^verbatim>\<open>getClosestCls\<close>, and the
  value of the constant expression \<^verbatim>\<open>PUREPIX_thredhold * HIS_BIN\<close>.
\<close>

record extern =
  CalculateANratio ::
    "16 word \<times> 16 word \<times> 16 word \<Rightarrow> real \<Rightarrow> real \<Rightarrow> real \<Rightarrow> real \<Rightarrow> (real \<times> real) option"
  getClosestCls :: "sensor \<Rightarrow> int \<Rightarrow> nat \<Rightarrow> int"
  PUREPIX_limit :: real

text \<open>
  The variables of one call: the sensor context behind \<^verbatim>\<open>sensor\<close>, the output vector
  behind \<^verbatim>\<open>lndPixAlbedo\<close>, the quality code behind \<^verbatim>\<open>QA\<close>, and the locals \<^verbatim>\<open>tmpQA\<close>
  and \<^verbatim>\<open>lndSR_flag\<close>.
\<close>

record state =
  ctx :: sensor
  lndPixAlbedo :: "nat \<Rightarrow> real"
  QA :: int
  tmpQA :: "nat \<Rightarrow> int"
  lndSR_flag :: int

datatype status = SUCCESS | FAILURE

datatype outcome = Returned status sensor "nat \<Rightarrow> real" int | Exited

datatype flow = Continue state | Return_FAILURE state | Exit

subsection \<open>Constant tables\<close>

definition TMBandIndx :: "nat list" where
  "TMBandIndx = [2, 3, 0, 1, 5, 6]"

definition ETM_coefficents_sw :: "real list" where
  "ETM_coefficents_sw = [0.3141, 0.000, 0.1607, 0.3694, 0.1160, 0.0456, -0.0057]"

definition ETM_coefficents_vis :: "real list" where
  "ETM_coefficents_vis = [0.5610, 0.2404, 0.2012, 0.000, 0.000, 0.000, -0.0026]"

definition ETM_coefficents_nir :: "real list" where
  "ETM_coefficents_nir = [0.000, 0.000, 0.000, 0.6668, 0.2861, 0.0572, -0.0042]"

text \<open>The array \<^verbatim>\<open>_TM_coefficents_sw\<close> of the source (a name cannot start with an underscore here).\<close>

definition TM_coefficents_sw_0 :: "real list" where
  "TM_coefficents_sw_0 = [0.3206, 0.000, 0.1572, 0.3666, 0.1162, 0.0457, -0.0063]"

definition TM_coefficents_vis :: "real list" where
  "TM_coefficents_vis = [0.6000, 0.2204, 0.1828, 0.000, 0.000, 0.000, -0.0033]"

definition TM_coefficents_nir :: "real list" where
  "TM_coefficents_nir = [0.000, 0.000, 0.000, 0.6646, 0.2859, 0.0566, -0.0037]"

definition LC8_n2b_lib :: "real list" where
  "LC8_n2b_lib = [0.2453421, 0.050843, 0.1803945, 0.3080635, 0.1331847, 0.0521349, 0.0011052]"

definition LC8_n2b_lib_snow :: "real list" where
  "LC8_n2b_lib_snow = [1.22416, -0.431845, -0.3446429, 0.3367926, 0.1834496, 0.2554519, -0.0052154]"

definition MSI_n2b_lib_sw :: "real list" where
  "MSI_n2b_lib_sw = [0.2687617, 0.0361839, 0.1501418, 0.3044542, 0.164433, 0.0356021, -0.0048673]"

definition MSI_n2b_lib_sw_snow :: "real list" where
  "MSI_n2b_lib_sw_snow = [-0.1992158, 2.300191, -1.912122, 0.6714989, -2.272847, 1.934139, -0.0001144]"

subsection \<open>Coefficient selection (lines 73, 91-114)\<close>

text \<open>The value of the pointer \<^verbatim>\<open>TM_coefficents_sw\<close> after the instrument branch.\<close>

definition TM_coefficents_sw :: "instrument \<Rightarrow> int \<Rightarrow> real list" where
  "TM_coefficents_sw instr snow_flag =
     (if instr = OLI then (if snow_flag \<noteq> 0 then LC8_n2b_lib_snow else LC8_n2b_lib)
      else if instr = MSI then (if snow_flag \<noteq> 0 then MSI_n2b_lib_sw_snow else MSI_n2b_lib_sw)
      else TM_coefficents_sw_0)"

subsection \<open>Conversions and raster access\<close>

text \<open>C's conversion of a \<^verbatim>\<open>double\<close> to an integer type drops the fraction.\<close>

definition trunc_double :: "real \<Rightarrow> int" where
  "trunc_double x = (if 0 \<le> x then \<lfloor>x\<rfloor> else \<lceil>x\<rceil>)"

definition int16_of_double :: "real \<Rightarrow> 16 word" where
  "int16_of_double x = word_of_int (trunc_double x)"

definition SR :: "state \<Rightarrow> nat \<Rightarrow> nat \<Rightarrow> 16 word" where
  "SR st iband col = OneRowlndSR (ctx st) iband col"

definition set_SR :: "state \<Rightarrow> nat \<Rightarrow> nat \<Rightarrow> 16 word \<Rightarrow> state" where
  "set_SR st iband col v =
     st\<lparr>ctx := (ctx st)\<lparr>OneRowlndSR :=
        (OneRowlndSR (ctx st))(iband := (OneRowlndSR (ctx st) iband)(col := v))\<rparr>\<rparr>"

definition set_albedo :: "state \<Rightarrow> nat \<Rightarrow> real \<Rightarrow> state" where
  "set_albedo st i v = st\<lparr>lndPixAlbedo := (lndPixAlbedo st)(i := v)\<rparr>"

definition incr_tmpQA :: "state \<Rightarrow> nat \<Rightarrow> state" where
  "incr_tmpQA st k = st\<lparr>tmpQA := (tmpQA st)(k := tmpQA st k + 1)\<rparr>"

text \<open>
  The test \<^verbatim>\<open>OneRowlndSR[iband][col] >= (1.2 / lndSR_ScaFct)\<close>. With a zero scale factor
  the quotient is the IEEE infinity, which no reflectance reaches.
\<close>

definition over_limit :: "real \<Rightarrow> 16 word \<Rightarrow> bool" where
  "over_limit sf v \<longleftrightarrow> sf \<noteq> 0 \<and> 1.2 / sf \<le> real_of_int (sint v)"

subsection \<open>The band loop (lines 136-261)\<close>

text \<open>Lines 143-147: \<^verbatim>\<open>BRDFava_flg\<close> is set when all three kernel weights of the class are zero.\<close>

definition BRDFava_flg :: "sensor \<Rightarrow> int \<Rightarrow> nat \<Rightarrow> bool" where
  "BRDFava_flg s icls TM_Indx \<longleftrightarrow>
     BRDF_paras s icls TM_Indx 0 = 0 \<and> BRDF_paras s icls TM_Indx 1 = 0
     \<and> BRDF_paras s icls TM_Indx 2 = 0"

text \<open>
  Lines 149-167: the class whose parameters are used, with the tallies \<^verbatim>\<open>tmpQA[0..2]\<close>;
  \<open>None\<close> is the \<^verbatim>\<open>return FAILURE\<close> of line 164.
\<close>

definition purity_tally :: "extern \<Rightarrow> int \<Rightarrow> state \<Rightarrow> state" where
  "purity_tally X icls st =
     (let st1 = (if pure_thrsh (ctx st) icls > PUREPIX_limit X then incr_tmpQA st 0 else st)
      in if pure_thrsh (ctx st1) icls = PUREPIX_limit X then incr_tmpQA st1 1 else st1)"

definition resolve_BRDFcls :: "extern \<Rightarrow> int \<Rightarrow> nat \<Rightarrow> state \<Rightarrow> (int \<times> state) option" where
  "resolve_BRDFcls X icls TM_Indx st =
     (if \<not> BRDFava_flg (ctx st) icls TM_Indx then Some (icls, purity_tally X icls st)
      else
        let BRDFcls = getClosestCls X (ctx st) icls TM_Indx
        in if BRDFcls = - 1 then None else Some (BRDFcls, incr_tmpQA st 2))"

text \<open>Lines 169-171: the three kernel weights, plus one half, converted to \<^verbatim>\<open>int16\<close>.\<close>

definition tmp_BRDF :: "sensor \<Rightarrow> int \<Rightarrow> nat \<Rightarrow> 16 word \<times> 16 word \<times> 16 word" where
  "tmp_BRDF s BRDFcls TM_Indx =
     (int16_of_double (BRDF_paras s BRDFcls TM_Indx 0 + 0.5),
      int16_of_double (BRDF_paras s BRDFcls TM_Indx 1 + 0.5),
      int16_of_double (BRDF_paras s BRDFcls TM_Indx 2 + 0.5))"

text \<open>Lines 204-205: a negative reflectance is set to zero, in the raster itself.\<close>

definition constrain_negative :: "nat \<Rightarrow> nat \<Rightarrow> state \<Rightarrow> state" where
  "constrain_negative col iband st =
     (if sint (SR st iband col) < 0 then set_SR st iband col 0 else st)"

text \<open>Lines 207-208: a reflectance of 1.2 or more (after scaling) is set to 0.99.\<close>

definition constrain_high :: "nat \<Rightarrow> nat \<Rightarrow> state \<Rightarrow> state" where
  "constrain_high col iband st =
     (if over_limit (lndSR_ScaFct (ctx st)) (SR st iband col)
      then set_SR st iband col (int16_of_double (0.99 / lndSR_ScaFct (ctx st)))
      else st)"

text \<open>Lines 211-217: the spectral black-sky and white-sky albedo.\<close>

definition spectral_albedo :: "nat \<Rightarrow> nat \<Rightarrow> real \<Rightarrow> real \<Rightarrow> state \<Rightarrow> state" where
  "spectral_albedo col iband tmp_ANR_bsa tmp_ANR_wsa st =
     set_albedo
       (set_albedo st (iband * 2 + 0)
          (lndSR_ScaFct (ctx st) * real_of_int (sint (SR st iband col)) * tmp_ANR_bsa))
       (iband * 2 + 1)
       (lndSR_ScaFct (ctx st) * real_of_int (sint (SR st iband col)) * tmp_ANR_wsa)"

text \<open>Lines 219-230: the Lambertian assumption for a negative narrow-band albedo.\<close>

definition lambertian_if_negative :: "nat \<Rightarrow> nat \<Rightarrow> state \<Rightarrow> state" where
  "lambertian_if_negative col iband st =
     (if lndPixAlbedo st (iband * 2 + 0) < 0 \<or> lndPixAlbedo st (iband * 2 + 1) < 0 then
        set_albedo
          (set_albedo (incr_tmpQA st 3) (iband * 2 + 0)
             (lndSR_ScaFct (ctx st) * real_of_int (sint (SR st iband col))))
          (iband * 2 + 1)
          (lndSR_ScaFct (ctx st) * real_of_int (sint (SR st iband col)))
      else st)"

text \<open>
  Lines 184-232, the body of the first \<^verbatim>\<open>if\<close>; \<open>None\<close> is the \<^verbatim>\<open>exit (1)\<close> of line 192.
\<close>

definition ANratio_albedo ::
  "extern \<Rightarrow> nat \<Rightarrow> nat \<Rightarrow> 16 word \<times> 16 word \<times> 16 word \<Rightarrow> state \<Rightarrow> state option" where
  "ANratio_albedo X col iband tb st =
     (case CalculateANratio X tb (SZA (ctx st)) (SAA (ctx st)) (pix_VZA (ctx st)) (pix_VAA (ctx st)) of
        None \<Rightarrow> None
      | Some (tmp_ANR_wsa, tmp_ANR_bsa) \<Rightarrow>
          Some (lambertian_if_negative col iband
                  (spectral_albedo col iband tmp_ANR_bsa tmp_ANR_wsa
                     (constrain_high col iband (constrain_negative col iband st)))))"

text \<open>Lines 235-243: the isotropic pixel.\<close>

definition isotropic_albedo :: "nat \<Rightarrow> nat \<Rightarrow> 16 word \<Rightarrow> state \<Rightarrow> state" where
  "isotropic_albedo col iband tb0 st =
     (if tb0 = 0 \<and> sint (SR st iband col) \<noteq> SR_fillValue (ctx st) then
        incr_tmpQA
          (set_albedo
             (set_albedo st (iband * 2 + 0)
                (lndSR_ScaFct (ctx st) * real_of_int (sint (SR st iband col))))
             (iband * 2 + 1)
             (lndSR_ScaFct (ctx st) * real_of_int (sint (SR st iband col))))
          4
      else st)"

text \<open>Lines 245-249: reflectance not available.\<close>

definition fill_check :: "nat \<Rightarrow> nat \<Rightarrow> state \<Rightarrow> state" where
  "fill_check col iband st =
     (if sint (SR st iband col) = SR_fillValue (ctx st)
      then (incr_tmpQA st 5)\<lparr>lndSR_flag := lndSR_flag st + 1\<rparr>
      else st)"

text \<open>One iteration of the loop over \<^verbatim>\<open>iband\<close>.\<close>

definition narrow_band ::
  "extern \<Rightarrow> nat \<Rightarrow> nat \<Rightarrow> 16 word \<times> 16 word \<times> 16 word \<Rightarrow> state \<Rightarrow> flow" where
  "narrow_band X col iband tb st =
     (case (if sint (SR st iband col) \<noteq> SR_fillValue (ctx st) \<and> fst tb \<noteq> 0
            then ANratio_albedo X col iband tb st else Some st) of
        None \<Rightarrow> Exit
      | Some st' \<Rightarrow> Continue (fill_check col iband (isotropic_albedo col iband (fst tb) st')))"

definition band_body :: "extern \<Rightarrow> int \<Rightarrow> nat \<Rightarrow> nat \<Rightarrow> state \<Rightarrow> flow" where
  "band_body X icls col iband st =
     (case resolve_BRDFcls X icls (TMBandIndx ! iband) st of
        None \<Rightarrow> Return_FAILURE st
      | Some (BRDFcls, st1) \<Rightarrow>
          narrow_band X col iband (tmp_BRDF (ctx st1) BRDFcls (TMBandIndx ! iband)) st1)"

fun band_loop :: "extern \<Rightarrow> int \<Rightarrow> nat \<Rightarrow> nat list \<Rightarrow> state \<Rightarrow> flow" where
  "band_loop X icls col [] st = Continue st"
| "band_loop X icls col (iband # rest) st =
     (case band_body X icls col iband st of
        Continue st' \<Rightarrow> band_loop X icls col rest st'
      | Return_FAILURE st' \<Rightarrow> Return_FAILURE st'
      | Exit \<Rightarrow> Exit)"

subsection \<open>The quality code (lines 269-276)\<close>

definition assign_QA :: "state \<Rightarrow> state" where
  "assign_QA st =
     (if tmpQA st 0 = nbands (ctx st) then st\<lparr>QA := 0\<rparr>
      else if tmpQA st 0 + tmpQA st 1 = nbands (ctx st) then st\<lparr>QA := 1\<rparr>
      else if tmpQA st 2 + tmpQA st 0 + tmpQA st 1 = nbands (ctx st) then st\<lparr>QA := 2\<rparr>
      else if tmpQA st 3 > 0 then st\<lparr>QA := 3\<rparr>
      else st)"

subsection \<open>Narrow-to-broadband conversion (lines 286-388)\<close>

text \<open>Lines 288-293.\<close>

definition zero_broadband :: "state \<Rightarrow> state" where
  "zero_broadband st =
     set_albedo (set_albedo (set_albedo (set_albedo (set_albedo (set_albedo st
       12 0.0) 13 0.0) 14 0.0) 15 0.0) 16 0.0) 17 0.0"

text \<open>Lines 299-313: one iteration of the accumulation loop, one statement after the other.\<close>

definition accumulate :: "real list \<Rightarrow> nat \<Rightarrow> nat \<Rightarrow> nat \<Rightarrow> state \<Rightarrow> state" where
  "accumulate c iband slot k st =
     set_albedo st slot (lndPixAlbedo st slot + c ! iband * lndPixAlbedo st (iband * 2 + k))"

definition n2b_body :: "real list \<Rightarrow> nat \<Rightarrow> state \<Rightarrow> state" where
  "n2b_body sw iband st =
     accumulate TM_coefficents_nir iband 17 1
       (accumulate TM_coefficents_nir iband 16 0
          (accumulate TM_coefficents_vis iband 15 1
             (accumulate TM_coefficents_vis iband 14 0
                (accumulate sw iband 13 1
                   (accumulate sw iband 12 0 st)))))"

definition n2b_loop :: "real list \<Rightarrow> state \<Rightarrow> state" where
  "n2b_loop sw st = fold (n2b_body sw) [0..<nat (nbands (ctx st))] st"

text \<open>Lines 317-318, 320-321, 323-324 and 342-343, 363-364, 383-384: the intercept.\<close>

definition add_intercept :: "real list \<Rightarrow> nat \<Rightarrow> nat \<Rightarrow> state \<Rightarrow> state" where
  "add_intercept c a b st =
     (let st1 = set_albedo st a (lndPixAlbedo st a + c ! 6)
      in set_albedo st1 b (lndPixAlbedo st1 b + c ! 6))"

text \<open>
  Lines 329-339, 350-360 and 370-380 are the same loop on the slots \<open>a\<close>, \<open>b\<close> with
  the table \<open>c\<close>.
\<close>

definition lambert_body :: "real list \<Rightarrow> nat \<Rightarrow> nat \<Rightarrow> nat \<Rightarrow> nat \<Rightarrow> state \<Rightarrow> state" where
  "lambert_body c col a b iband st =
     (let st1 = set_albedo st a
                  (lndPixAlbedo st a
                   + c ! iband * real_of_int (sint (SR st iband col)) * lndSR_ScaFct (ctx st))
      in set_albedo st1 b
           (lndPixAlbedo st1 b
            + c ! iband * real_of_int (sint (SR st1 iband col)) * lndSR_ScaFct (ctx st1)))"

definition lambert_loop :: "real list \<Rightarrow> nat \<Rightarrow> nat \<Rightarrow> nat \<Rightarrow> state \<Rightarrow> state" where
  "lambert_loop c col a b st = fold (lambert_body c col a b) [0..<nat (nbands (ctx st))] st"

text \<open>Lines 327-345, 348-366 and 368-386: the three blocks guarded by a non-positive value.\<close>

definition lambert_block :: "real list \<Rightarrow> nat \<Rightarrow> nat \<Rightarrow> nat \<Rightarrow> state \<Rightarrow> state" where
  "lambert_block c col a b st =
     (if lndPixAlbedo st a \<le> 0 \<or> lndPixAlbedo st b \<le> 0
      then (add_intercept c a b (lambert_loop c col a b st))\<lparr>QA := 4\<rparr>
      else st)"

definition broadband :: "real list \<Rightarrow> nat \<Rightarrow> state \<Rightarrow> state" where
  "broadband sw col st =
     lambert_block TM_coefficents_nir col 16 17
       (lambert_block TM_coefficents_vis col 14 15
          (lambert_block sw col 12 13
             (add_intercept TM_coefficents_nir 16 17
                (add_intercept TM_coefficents_vis 14 15
                   (add_intercept sw 12 13
                      (n2b_loop sw (zero_broadband st)))))))"

subsection \<open>The function\<close>

definition initial_state :: "sensor \<Rightarrow> (nat \<Rightarrow> real) \<Rightarrow> int \<Rightarrow> state" where
  "initial_state s out qa =
     \<lparr>ctx = s, lndPixAlbedo = out, QA = qa, tmpQA = (\<lambda>k. 0), lndSR_flag = 0\<rparr>"

definition CalculateAlbedo ::
  "extern \<Rightarrow> sensor \<Rightarrow> (nat \<Rightarrow> real) \<Rightarrow> int \<Rightarrow> nat \<Rightarrow> int \<Rightarrow> int \<Rightarrow> outcome" where
  "CalculateAlbedo X s out row col qa snow_flag =
     (let sw = TM_coefficents_sw (instrument s) snow_flag;
          icls = Clsdata s col
      in if icls = Cls_fillValue s \<or> icls > actu_ncls s \<or> icls < 0 then Returned FAILURE s out qa
         else
           case band_loop X icls col [0..<nat (nbands s)] (initial_state s out qa) of
             Exit \<Rightarrow> Exited
           | Return_FAILURE st \<Rightarrow> Returned FAILURE (ctx st) (lndPixAlbedo st) (QA st)
           | Continue st \<Rightarrow>
               if lndSR_flag st \<noteq> 0
               then Returned FAILURE (ctx st) (lndPixAlbedo st) (- 1)
               else
                 let st' = broadband sw col (assign_QA st)
                 in Returned SUCCESS (ctx st') (lndPixAlbedo st') (QA st'))"

subsection \<open>One band iteration, described from the code above\<close>

text \<open>
  The definitions of this and the next two subsections are not part of the program: they
  name what the code computes, and are proved equal to it below.
\<close>

text \<open>
  What lines 204-208 leave in the raster for the reflectance \<open>v\<close>.
\<close>

definition clamp_SR :: "real \<Rightarrow> 16 word \<Rightarrow> 16 word" where
  "clamp_SR sf v =
     (let v1 = (if sint v < 0 then 0 else v)
      in if over_limit sf v1 then int16_of_double (0.99 / sf) else v1)"

text \<open>The sensor context with one raster entry replaced.\<close>

definition put_SR :: "sensor \<Rightarrow> nat \<Rightarrow> nat \<Rightarrow> 16 word \<Rightarrow> sensor" where
  "put_SR s b col v = s\<lparr>OneRowlndSR := (OneRowlndSR s)(b := (OneRowlndSR s b)(col := v))\<rparr>"

text \<open>The test of line 219 on the two products of lines 211-217.\<close>

definition negative_albedo :: "real \<Rightarrow> 16 word \<Rightarrow> real \<Rightarrow> real \<Rightarrow> bool" where
  "negative_albedo sf v k w \<longleftrightarrow>
     sf * real_of_int (sint v) * k < 0 \<or> sf * real_of_int (sint v) * w < 0"

text \<open>The band returns \<^verbatim>\<open>FAILURE\<close> at line 164.\<close>

definition band_fails :: "extern \<Rightarrow> sensor \<Rightarrow> int \<Rightarrow> nat \<Rightarrow> bool" where
  "band_fails X s icls b \<longleftrightarrow>
     BRDFava_flg s icls (TMBandIndx ! b) \<and> getClosestCls X s icls (TMBandIndx ! b) = - 1"

text \<open>The value of \<^verbatim>\<open>BRDFcls\<close> at line 169.\<close>

definition band_class :: "extern \<Rightarrow> sensor \<Rightarrow> int \<Rightarrow> nat \<Rightarrow> int" where
  "band_class X s icls b =
     (if BRDFava_flg s icls (TMBandIndx ! b) then getClosestCls X s icls (TMBandIndx ! b) else icls)"

text \<open>The value of \<^verbatim>\<open>tmp_BRDF\<close> after line 171.\<close>

definition band_weights :: "extern \<Rightarrow> sensor \<Rightarrow> int \<Rightarrow> nat \<Rightarrow> 16 word \<times> 16 word \<times> 16 word" where
  "band_weights X s icls b = tmp_BRDF s (band_class X s icls b) (TMBandIndx ! b)"

text \<open>The result of the call of \<^verbatim>\<open>CalculateANratio\<close> at line 186.\<close>

definition band_ratio :: "extern \<Rightarrow> sensor \<Rightarrow> int \<Rightarrow> nat \<Rightarrow> (real \<times> real) option" where
  "band_ratio X s icls b =
     CalculateANratio X (band_weights X s icls b) (SZA s) (SAA s) (pix_VZA s) (pix_VAA s)"

text \<open>The condition of lines 182-183, for the reflectance \<open>v\<close> of the band.\<close>

definition uses_ANratio :: "extern \<Rightarrow> sensor \<Rightarrow> int \<Rightarrow> nat \<Rightarrow> 16 word \<Rightarrow> bool" where
  "uses_ANratio X s icls b v \<longleftrightarrow>
     sint v \<noteq> SR_fillValue s \<and> fst (band_weights X s icls b) \<noteq> 0"

text \<open>The raster entry of the band after the iteration.\<close>

definition band_SR :: "extern \<Rightarrow> sensor \<Rightarrow> int \<Rightarrow> nat \<Rightarrow> 16 word \<Rightarrow> 16 word" where
  "band_SR X s icls b v =
     (if uses_ANratio X s icls b v then clamp_SR (lndSR_ScaFct s) v else v)"

text \<open>The Lambertian assumption of lines 219-230 was applied.\<close>

definition band_negative :: "extern \<Rightarrow> sensor \<Rightarrow> int \<Rightarrow> nat \<Rightarrow> 16 word \<Rightarrow> bool" where
  "band_negative X s icls b v \<longleftrightarrow>
     uses_ANratio X s icls b v \<and>
     (case band_ratio X s icls b of
        None \<Rightarrow> False
      | Some (w, k) \<Rightarrow> negative_albedo (lndSR_ScaFct s) (clamp_SR (lndSR_ScaFct s) v) k w)"

text \<open>
  The factors by which the scaled reflectance is multiplied in the two narrow-band slots:
  the black-sky and white-sky ratio, or 1 in the Lambertian and the isotropic case.
\<close>

definition band_factors :: "extern \<Rightarrow> sensor \<Rightarrow> int \<Rightarrow> nat \<Rightarrow> 16 word \<Rightarrow> real \<times> real" where
  "band_factors X s icls b v =
     (if uses_ANratio X s icls b v \<and> \<not> band_negative X s icls b v then
        (case band_ratio X s icls b of None \<Rightarrow> (1, 1) | Some (w, k) \<Rightarrow> (k, w))
      else (1, 1))"

text \<open>The output vector after the iteration: a fill band writes nothing.\<close>

definition band_albedo ::
  "extern \<Rightarrow> sensor \<Rightarrow> int \<Rightarrow> nat \<Rightarrow> 16 word \<Rightarrow> (nat \<Rightarrow> real) \<Rightarrow> nat \<Rightarrow> real" where
  "band_albedo X s icls b v alb =
     (if sint v = SR_fillValue s then alb
      else alb
        (b * 2 := lndSR_ScaFct s * real_of_int (sint (band_SR X s icls b v))
                    * fst (band_factors X s icls b v),
         b * 2 + 1 := lndSR_ScaFct s * real_of_int (sint (band_SR X s icls b v))
                    * snd (band_factors X s icls b v)))"

text \<open>What the iteration adds to each of the six tallies.\<close>

definition band_incr :: "extern \<Rightarrow> sensor \<Rightarrow> int \<Rightarrow> nat \<Rightarrow> 16 word \<Rightarrow> nat \<Rightarrow> int" where
  "band_incr X s icls b v k =
     (if k = 0 then of_bool (\<not> BRDFava_flg s icls (TMBandIndx ! b) \<and> pure_thrsh s icls > PUREPIX_limit X)
      else if k = 1 then of_bool (\<not> BRDFava_flg s icls (TMBandIndx ! b) \<and> pure_thrsh s icls = PUREPIX_limit X)
      else if k = 2 then of_bool (BRDFava_flg s icls (TMBandIndx ! b))
      else if k = 3 then of_bool (band_negative X s icls b v)
      else if k = 4 then of_bool (\<not> uses_ANratio X s icls b v \<and> sint v \<noteq> SR_fillValue s)
      else if k = 5 then of_bool (sint (band_SR X s icls b v) = SR_fillValue s)
      else 0)"

text \<open>The state after an iteration that neither returns nor exits.\<close>

definition band_state :: "extern \<Rightarrow> int \<Rightarrow> nat \<Rightarrow> nat \<Rightarrow> state \<Rightarrow> state" where
  "band_state X icls col b st =
     (let s = ctx st; v = OneRowlndSR s b col in
      \<lparr>ctx = put_SR s b col (band_SR X s icls b v),
       lndPixAlbedo = band_albedo X s icls b v (lndPixAlbedo st),
       QA = QA st,
       tmpQA = (\<lambda>k. tmpQA st k + band_incr X s icls b v k),
       lndSR_flag = lndSR_flag st + of_bool (sint (band_SR X s icls b v) = SR_fillValue s)\<rparr>)"

text \<open>The iteration returns or exits.\<close>

definition band_stops :: "extern \<Rightarrow> sensor \<Rightarrow> int \<Rightarrow> nat \<Rightarrow> nat \<Rightarrow> bool" where
  "band_stops X s icls col b \<longleftrightarrow>
     band_fails X s icls b \<or>
     (uses_ANratio X s icls b (OneRowlndSR s b col) \<and> band_ratio X s icls b = None)"

subsection \<open>The band loop, described from the code above\<close>

text \<open>Two sensor contexts that differ in the reflectance raster at most.\<close>

definition only_raster :: "sensor \<Rightarrow> sensor \<Rightarrow> bool" where
  "only_raster s s' \<longleftrightarrow> s' = s\<lparr>OneRowlndSR := OneRowlndSR s'\<rparr>"

text \<open>The loop ended in the state \<open>st\<close>, by completing or by returning.\<close>

definition stopped :: "flow \<Rightarrow> state \<Rightarrow> bool" where
  "stopped r st \<longleftrightarrow> r = Continue st \<or> r = Return_FAILURE st"

text \<open>
  The closest-class search does not read the reflectance raster, the one part of the
  sensor context that the function writes.
\<close>

definition raster_independent :: "extern \<Rightarrow> bool" where
  "raster_independent X \<longleftrightarrow> (\<forall>s r. getClosestCls X (s\<lparr>OneRowlndSR := r\<rparr>) = getClosestCls X s)"

text \<open>
  The same for one band of one class; it holds as well where the search is not called,
  because the class has parameters at the band.
\<close>

definition closest_stable :: "extern \<Rightarrow> sensor \<Rightarrow> int \<Rightarrow> nat \<Rightarrow> bool" where
  "closest_stable X s icls b \<longleftrightarrow>
     \<not> BRDFava_flg s icls (TMBandIndx ! b) \<or>
     (\<forall>r. getClosestCls X (s\<lparr>OneRowlndSR := r\<rparr>) icls (TMBandIndx ! b)
          = getClosestCls X s icls (TMBandIndx ! b))"

text \<open>
  The state after the iterations for the bands \<open>bs\<close>, none of which returns or exits,
  started in a state whose sensor context agrees with \<open>s\<close> on these bands.
\<close>

definition loop_state :: "extern \<Rightarrow> sensor \<Rightarrow> int \<Rightarrow> nat \<Rightarrow> nat list \<Rightarrow> state \<Rightarrow> state" where
  "loop_state X s icls col bs st =
     \<lparr>ctx = (ctx st)\<lparr>OneRowlndSR :=
          (\<lambda>b c. if b \<in> set bs \<and> c = col then band_SR X s icls b (OneRowlndSR s b col)
                 else OneRowlndSR (ctx st) b c)\<rparr>,
      lndPixAlbedo = fold (\<lambda>b. band_albedo X s icls b (OneRowlndSR s b col)) bs (lndPixAlbedo st),
      QA = QA st,
      tmpQA = (\<lambda>k. tmpQA st k + (\<Sum>b\<leftarrow>bs. band_incr X s icls b (OneRowlndSR s b col) k)),
      lndSR_flag = lndSR_flag st
         + (\<Sum>b\<leftarrow>bs. of_bool (sint (band_SR X s icls b (OneRowlndSR s b col)) = SR_fillValue s))\<rparr>"

subsection \<open>The broadband conversion, described from the code above\<close>

text \<open>The sum accumulated by lines 299-313 for one table and one sky condition.\<close>

definition n2b_sum :: "real list \<Rightarrow> (nat \<Rightarrow> real) \<Rightarrow> nat \<Rightarrow> nat list \<Rightarrow> real" where
  "n2b_sum c alb k bs = (\<Sum>b\<leftarrow>bs. c ! b * alb (b * 2 + k))"

text \<open>
  The Lambertian sum of lines 329-339: coefficient times reflectance times scale factor,
  over the bands.
\<close>

definition lambert_sum :: "real list \<Rightarrow> sensor \<Rightarrow> nat \<Rightarrow> nat list \<Rightarrow> real" where
  "lambert_sum c s col bs =
     (\<Sum>b\<leftarrow>bs. c ! b * real_of_int (sint (OneRowlndSR s b col)) * lndSR_ScaFct s)"

text \<open>The regression value: the accumulated sum plus the intercept.\<close>

definition bb_sum :: "real list \<Rightarrow> sensor \<Rightarrow> (nat \<Rightarrow> real) \<Rightarrow> nat \<Rightarrow> real" where
  "bb_sum c s alb k = n2b_sum c alb k [0..<nat (nbands s)] + c ! 6"

text \<open>The condition of lines 327, 348 and 368.\<close>

definition bb_rescue :: "real list \<Rightarrow> sensor \<Rightarrow> (nat \<Rightarrow> real) \<Rightarrow> bool" where
  "bb_rescue c s alb \<longleftrightarrow> bb_sum c s alb 0 \<le> 0 \<or> bb_sum c s alb 1 \<le> 0"

text \<open>
  The final value of a broadband slot: the block adds the Lambertian sum and the intercept
  to the regression value.
\<close>

definition bb_value :: "real list \<Rightarrow> sensor \<Rightarrow> nat \<Rightarrow> (nat \<Rightarrow> real) \<Rightarrow> nat \<Rightarrow> real" where
  "bb_value c s col alb k =
     (if bb_rescue c s alb
      then bb_sum c s alb k + lambert_sum c s col [0..<nat (nbands s)] + c ! 6
      else bb_sum c s alb k)"

text \<open>One of the three blocks has run.\<close>

definition any_rescue :: "real list \<Rightarrow> sensor \<Rightarrow> (nat \<Rightarrow> real) \<Rightarrow> bool" where
  "any_rescue sw s A \<longleftrightarrow>
     bb_rescue sw s A \<or> bb_rescue TM_coefficents_vis s A \<or> bb_rescue TM_coefficents_nir s A"

subsection \<open>The words of the specification\<close>

text \<open>
  The rules of the classifier as an ordered list of condition and code, over the tallies
  \<open>t\<close> and the number of active bands \<open>N\<close>; the first rule whose condition holds gives
  the code, and the previous code stays when none holds.
\<close>

definition QA_rules :: "(nat \<Rightarrow> int) \<Rightarrow> int \<Rightarrow> (bool \<times> int) list" where
  "QA_rules t N =
     [(t 0 = N, 0), (t 0 + t 1 = N, 1), (t 2 + t 0 + t 1 = N, 2), (t 3 > 0, 3)]"

definition first_match :: "(bool \<times> int) list \<Rightarrow> int \<Rightarrow> int" where
  "first_match rules previous =
     (case find fst rules of None \<Rightarrow> previous | Some (_, code) \<Rightarrow> code)"

text \<open>Rounding half-up to the nearest integer, in the words of the specification.\<close>

definition round_half_up :: "real \<Rightarrow> int" where
  "round_half_up x = \<lfloor>x + 1 / 2\<rfloor>"

subsection \<open>Sample inputs\<close>

text \<open>
  A pixel of a six-band scene with a scale factor of 0.0001 and the fill value -9999, whose
  class 1 has the kernel weights (100, 100, 100) at every band and more pure pixels than the
  limit; an anisotropy ratio of 2 (white sky) and 3 (black sky); no closest class.
\<close>

definition example_extern :: extern where
  "example_extern =
     \<lparr>CalculateANratio = (\<lambda>tb sza saa vza vaa. Some (2, 3)),
      getClosestCls = (\<lambda>s icls b. - 1),
      PUREPIX_limit = 15\<rparr>"

definition example_sensor :: sensor where
  "example_sensor =
     \<lparr>instrument = OLI, nbands = 6, lndSR_ScaFct = 1 / 10000, SR_fillValue = - 9999,
      SZA = 30, SAA = 120, pix_VZA = 5, pix_VAA = 100,
      Clsdata = (\<lambda>c. 1), Cls_fillValue = 255, actu_ncls = 10,
      pure_thrsh = (\<lambda>c. 20), BRDF_paras = (\<lambda>c b k. 100),
      OneRowlndSR = (\<lambda>b c. 1000)\<rparr>"

definition example_out :: "nat \<Rightarrow> real" where
  "example_out = (\<lambda>i. 1)"

text \<open>The state of the sample pixel after the band loop.\<close>

definition example_loop_state :: state where
  "example_loop_state =
     loop_state example_extern example_sensor 1 0 [0..<6] (initial_state example_sensor example_out 7)"

text \<open>The output vector of the call for the sample pixel.\<close>

definition example_result :: "nat \<Rightarrow> real" where
  "example_result = example_out(0 := 3 / 10, 1 := 1 / 5, 2 := 3 / 10, 3 := 1 / 5,
     4 := 3 / 10, 5 := 1 / 5, 6 := 3 / 10, 7 := 1 / 5, 8 := 3 / 10, 9 := 1 / 5,
     10 := 3 / 10, 11 := 1 / 5,
     12 := 29209401 / 100000000, 13 := 9754887 / 50000000,
     14 := 14883 / 50000, 15 := 9867 / 50000,
     16 := 29843 / 100000, 17 := 4943 / 25000)"

text \<open>The same pixel seen by a legacy instrument, with a reflectance of zero in every band.\<close>

definition zero_sensor :: sensor where
  "zero_sensor = example_sensor\<lparr>instrument := TM, OneRowlndSR := (\<lambda>b c. 0)\<rparr>"

text \<open>The sample pixel with a reflectance of -5 in every band.\<close>

definition negative_sensor :: sensor where
  "negative_sensor = example_sensor\<lparr>OneRowlndSR := (\<lambda>b c. - 5)\<rparr>"

text \<open>What the call leaves for the pixel with negative reflectance.\<close>

definition negative_after :: sensor where
  "negative_after = negative_sensor\<lparr>OneRowlndSR := (\<lambda>b c. if b < 6 \<and> c = 0 then 0 else - 5)\<rparr>"

definition negative_out :: "nat \<Rightarrow> real" where
  "negative_out = example_out(0 := 0, 1 := 0, 2 := 0, 3 := 0, 4 := 0, 5 := 0, 6 := 0, 7 := 0,
     8 := 0, 9 := 0, 10 := 0, 11 := 0, 12 := 0.0011052, 13 := 0.0011052, 14 := - 0.0066,
     15 := - 0.0066, 16 := - 0.0074, 17 := - 0.0074)"

text \<open>
  The sample pixel when its class has the kernel weights (0, 0, 0) at the second band
  (MODIS band 3).
\<close>

definition borrow_sensor :: sensor where
  "borrow_sensor = example_sensor\<lparr>BRDF_paras := (\<lambda>c b k. if b = 3 then 0 else 100)\<rparr>"

text \<open>The state of the pixel without parameters at the second band, after the first band.\<close>

definition borrow_state :: state where
  "borrow_state =
     loop_state example_extern borrow_sensor 1 0 [0..<1] (initial_state borrow_sensor example_out 7)"

text \<open>The sample pixel with the fill class and a fill reflectance in every band.\<close>

definition fill_sensor :: sensor where
  "fill_sensor = example_sensor\<lparr>Clsdata := (\<lambda>c. 255), OneRowlndSR := (\<lambda>b c. - 9999)\<rparr>"

text \<open>The sample pixel with a fill reflectance in every band.\<close>

definition nodata_sensor :: sensor where
  "nodata_sensor = example_sensor\<lparr>OneRowlndSR := (\<lambda>b c. - 9999)\<rparr>"

text \<open>The state of the pixel without reflectance data after the band loop.\<close>

definition nodata_state :: state where
  "nodata_state =
     loop_state example_extern nodata_sensor 1 0 [0..<6] (initial_state nodata_sensor example_out 7)"

text \<open>
  The sample pixel when its class has the kernel weights (0, 5, 5) at the first band (MODIS
  band 2) and (-0.7, 0, 0) at the other bands.
\<close>

definition odd_sensor :: sensor where
  "odd_sensor = example_sensor\<lparr>BRDF_paras :=
     (\<lambda>c b k. if b = 2 then (if k = 0 then 0 else 5) else (if k = 0 then - 7 / 10 else 0))\<rparr>"

text \<open>
  The sample pixel with a reflectance of 10000 in the first band and of -5 in the second,
  whose class has a first kernel weight of zero at the second band (MODIS band 3).
\<close>

definition mixed_sensor :: sensor where
  "mixed_sensor = example_sensor
     \<lparr>BRDF_paras := (\<lambda>c b k. if b = 3 \<and> k = 0 then 0 else 100),
      OneRowlndSR := (\<lambda>b c. if b = 0 then 10000 else if b = 1 then - 5 else 1000)\<rparr>"

definition mixed_out :: "nat \<Rightarrow> real" where
  "mixed_out = example_out(0 := 3, 1 := 2, 2 := - (1 / 2000), 3 := - (1 / 2000),
     4 := 3 / 10, 5 := 1 / 5, 6 := 3 / 10, 7 := 1 / 5, 8 := 3 / 10, 9 := 1 / 5,
     10 := 3 / 10, 11 := 1 / 5,
     12 := 1878478717 / 2000000000, 13 := 1253038997 / 2000000000,
     14 := 9257149 / 5000000, 15 := 6165749 / 5000000,
     16 := 29843 / 100000, 17 := 4943 / 25000)"

text \<open>
  The sample pixel with a reflectance of -5 in every band, when its class has the kernel
  weights (0.2, 5, 5) at every band and fewer pure pixels than the limit.
\<close>

definition low_sensor :: sensor where
  "low_sensor = example_sensor
     \<lparr>pure_thrsh := (\<lambda>c. 10), BRDF_paras := (\<lambda>c b k. if k = 0 then 1 / 5 else 5),
      OneRowlndSR := (\<lambda>b c. - 5)\<rparr>"

definition low_out :: "nat \<Rightarrow> real" where
  "low_out = example_out(0 := - (1 / 2000), 1 := - (1 / 2000), 2 := - (1 / 2000),
     3 := - (1 / 2000), 4 := - (1 / 2000), 5 := - (1 / 2000), 6 := - (1 / 2000),
     7 := - (1 / 2000), 8 := - (1 / 2000), 9 := - (1 / 2000), 10 := - (1 / 2000),
     11 := - (1 / 2000),
     12 := 12404373 / 20000000000, 13 := 12404373 / 20000000000,
     14 := - (594 / 78125), 15 := - (594 / 78125),
     16 := - (84071 / 10000000), 17 := - (84071 / 10000000))"

section \<open>Properties\<close>

subsection \<open>State accessors\<close>

lemma set_albedo_sel [simp]:
  "ctx (set_albedo st i v) = ctx st"
  "lndPixAlbedo (set_albedo st i v) = (lndPixAlbedo st)(i := v)"
  "QA (set_albedo st i v) = QA st"
  "tmpQA (set_albedo st i v) = tmpQA st"
  "lndSR_flag (set_albedo st i v) = lndSR_flag st"
  "SR (set_albedo st i v) = SR st"
  by (simp_all add: set_albedo_def SR_def fun_eq_iff)

lemma incr_tmpQA_sel [simp]:
  "ctx (incr_tmpQA st k) = ctx st"
  "lndPixAlbedo (incr_tmpQA st k) = lndPixAlbedo st"
  "QA (incr_tmpQA st k) = QA st"
  "tmpQA (incr_tmpQA st k) = (tmpQA st)(k := tmpQA st k + 1)"
  "lndSR_flag (incr_tmpQA st k) = lndSR_flag st"
  "SR (incr_tmpQA st k) = SR st"
  by (simp_all add: incr_tmpQA_def SR_def fun_eq_iff)

lemma set_SR_sel [simp]:
  "ctx (set_SR st b col v) = put_SR (ctx st) b col v"
  "lndPixAlbedo (set_SR st b col v) = lndPixAlbedo st"
  "QA (set_SR st b col v) = QA st"
  "tmpQA (set_SR st b col v) = tmpQA st"
  "lndSR_flag (set_SR st b col v) = lndSR_flag st"
  "SR (set_SR st b col v) b col = v"
  by (simp_all add: set_SR_def SR_def put_SR_def)

lemma put_SR_sel [simp]:
  "instrument (put_SR s b col v) = instrument s"
  "nbands (put_SR s b col v) = nbands s"
  "lndSR_ScaFct (put_SR s b col v) = lndSR_ScaFct s"
  "SR_fillValue (put_SR s b col v) = SR_fillValue s"
  "SZA (put_SR s b col v) = SZA s"
  "SAA (put_SR s b col v) = SAA s"
  "pix_VZA (put_SR s b col v) = pix_VZA s"
  "pix_VAA (put_SR s b col v) = pix_VAA s"
  "Clsdata (put_SR s b col v) = Clsdata s"
  "Cls_fillValue (put_SR s b col v) = Cls_fillValue s"
  "actu_ncls (put_SR s b col v) = actu_ncls s"
  "pure_thrsh (put_SR s b col v) = pure_thrsh s"
  "BRDF_paras (put_SR s b col v) = BRDF_paras s"
  "OneRowlndSR (put_SR s b col v) = (OneRowlndSR s)(b := (OneRowlndSR s b)(col := v))"
  by (simp_all add: put_SR_def)

lemma put_SR_put_SR [simp]: "put_SR (put_SR s b col v) b col w = put_SR s b col w"
  by (simp add: put_SR_def)

lemma put_SR_same: "v = OneRowlndSR s b col \<Longrightarrow> put_SR s b col v = s"
  by (simp add: put_SR_def)

lemma constrain_sel [simp]:
  "ctx (constrain_high col b (constrain_negative col b st))
     = put_SR (ctx st) b col (clamp_SR (lndSR_ScaFct (ctx st)) (SR st b col))"
  "SR (constrain_high col b (constrain_negative col b st)) b col
     = clamp_SR (lndSR_ScaFct (ctx st)) (SR st b col)"
  "lndPixAlbedo (constrain_high col b (constrain_negative col b st)) = lndPixAlbedo st"
  "QA (constrain_high col b (constrain_negative col b st)) = QA st"
  "tmpQA (constrain_high col b (constrain_negative col b st)) = tmpQA st"
  "lndSR_flag (constrain_high col b (constrain_negative col b st)) = lndSR_flag st"
  by (simp_all add: constrain_high_def constrain_negative_def clamp_SR_def SR_def put_SR_same)

lemma spectral_albedo_sel [simp]:
  "ctx (spectral_albedo col b k w st) = ctx st"
  "SR (spectral_albedo col b k w st) = SR st"
  "lndPixAlbedo (spectral_albedo col b k w st) = (lndPixAlbedo st)
     (b * 2 := lndSR_ScaFct (ctx st) * real_of_int (sint (SR st b col)) * k,
      b * 2 + 1 := lndSR_ScaFct (ctx st) * real_of_int (sint (SR st b col)) * w)"
  "QA (spectral_albedo col b k w st) = QA st"
  "tmpQA (spectral_albedo col b k w st) = tmpQA st"
  "lndSR_flag (spectral_albedo col b k w st) = lndSR_flag st"
  by (simp_all add: spectral_albedo_def)

lemma ANratio_albedo_Some:
  assumes "CalculateANratio X tb (SZA (ctx st)) (SAA (ctx st)) (pix_VZA (ctx st)) (pix_VAA (ctx st)) = Some (w, k)"
  and "sf = lndSR_ScaFct (ctx st)" and "v = clamp_SR sf (SR st b col)"
  shows "\<exists>st'. ANratio_albedo X col b tb st = Some st'
     \<and> ctx st' = put_SR (ctx st) b col v
     \<and> lndPixAlbedo st' = (lndPixAlbedo st)
          (b * 2 := sf * real_of_int (sint v) * (if negative_albedo sf v k w then 1 else k),
           b * 2 + 1 := sf * real_of_int (sint v) * (if negative_albedo sf v k w then 1 else w))
     \<and> QA st' = QA st
     \<and> tmpQA st' = (if negative_albedo sf v k w then (tmpQA st)(3 := tmpQA st 3 + 1) else tmpQA st)
     \<and> lndSR_flag st' = lndSR_flag st"
  using assms
  by (simp add: ANratio_albedo_def lambertian_if_negative_def negative_albedo_def fun_eq_iff)

lemma state_eqI:
  "ctx a = c \<Longrightarrow> lndPixAlbedo a = al \<Longrightarrow> QA a = q \<Longrightarrow> tmpQA a = t \<Longrightarrow> lndSR_flag a = f
   \<Longrightarrow> a = \<lparr>ctx = c, lndPixAlbedo = al, QA = q, tmpQA = t, lndSR_flag = f\<rparr>"
  by (cases a) simp

lemma purity_tally_sel [simp]:
  "ctx (purity_tally X icls st) = ctx st"
  "lndPixAlbedo (purity_tally X icls st) = lndPixAlbedo st"
  "QA (purity_tally X icls st) = QA st"
  "lndSR_flag (purity_tally X icls st) = lndSR_flag st"
  "SR (purity_tally X icls st) = SR st"
  "tmpQA (purity_tally X icls st) = (\<lambda>k. tmpQA st k
      + (if k = 0 then of_bool (pure_thrsh (ctx st) icls > PUREPIX_limit X)
         else if k = 1 then of_bool (pure_thrsh (ctx st) icls = PUREPIX_limit X) else 0))"
  by (auto simp add: purity_tally_def Let_def fun_eq_iff)

lemma fill_check_sel [simp]:
  "ctx (fill_check col b st) = ctx st"
  "lndPixAlbedo (fill_check col b st) = lndPixAlbedo st"
  "QA (fill_check col b st) = QA st"
  "lndSR_flag (fill_check col b st) = lndSR_flag st + of_bool (sint (SR st b col) = SR_fillValue (ctx st))"
  "tmpQA (fill_check col b st) = (\<lambda>k. tmpQA st k + (if k = 5 then of_bool (sint (SR st b col) = SR_fillValue (ctx st)) else 0))"
  by (auto simp add: fill_check_def fun_eq_iff)

lemma isotropic_albedo_sel [simp]:
  "ctx (isotropic_albedo col b t st) = ctx st"
  "SR (isotropic_albedo col b t st) = SR st"
  "QA (isotropic_albedo col b t st) = QA st"
  "lndSR_flag (isotropic_albedo col b t st) = lndSR_flag st"
  by (simp_all add: isotropic_albedo_def)

lemma isotropic_albedo_skip: "t \<noteq> 0 \<or> sint (SR st b col) = SR_fillValue (ctx st) \<Longrightarrow> isotropic_albedo col b t st = st"
  by (auto simp add: isotropic_albedo_def)

lemma isotropic_albedo_apply:
  "t = 0 \<Longrightarrow> sint (SR st b col) \<noteq> SR_fillValue (ctx st) \<Longrightarrow>
   lndPixAlbedo (isotropic_albedo col b t st) = (lndPixAlbedo st)
      (b * 2 := lndSR_ScaFct (ctx st) * real_of_int (sint (SR st b col)),
       b * 2 + 1 := lndSR_ScaFct (ctx st) * real_of_int (sint (SR st b col)))
   \<and> tmpQA (isotropic_albedo col b t st) = (tmpQA st)(4 := tmpQA st 4 + 1)"
  by (simp add: isotropic_albedo_def)

subsection \<open>One band iteration\<close>

lemma narrow_band_eq:
  fixes st b col X icls
  defines "s \<equiv> ctx st"
  defines "v \<equiv> OneRowlndSR (ctx st) b col"
  shows "narrow_band X col b (band_weights X s icls b) st =
     (if uses_ANratio X s icls b v \<and> band_ratio X s icls b = None then Exit
      else Continue \<lparr>ctx = put_SR s b col (band_SR X s icls b v),
             lndPixAlbedo = band_albedo X s icls b v (lndPixAlbedo st),
             QA = QA st,
             tmpQA = (\<lambda>k. tmpQA st k
                + (if k = 3 then band_incr X s icls b v 3 else if k = 4 then band_incr X s icls b v 4
                   else if k = 5 then band_incr X s icls b v 5 else 0)),
             lndSR_flag = lndSR_flag st + of_bool (sint (band_SR X s icls b v) = SR_fillValue s)\<rparr>)"
proof (cases "uses_ANratio X s icls b v")
  case True
  let ?tb = "band_weights X s icls b"
  have v: "SR st b col = v" by (simp add: SR_def v_def)
  have s: "ctx st = s" by (simp add: s_def)
  have nf: "sint (SR st b col) \<noteq> SR_fillValue (ctx st)" and t0: "fst ?tb \<noteq> 0"
    using True by (simp_all add: uses_ANratio_def v s)
  have bsr: "band_SR X s icls b v = clamp_SR (lndSR_ScaFct s) v"
    using True by (simp add: band_SR_def)
  show ?thesis
  proof (cases "band_ratio X s icls b")
    case None
    then show ?thesis using True nf t0
      by (simp add: narrow_band_def ANratio_albedo_def band_ratio_def s)
  next
    case (Some p)
    obtain w k where p: "p = (w, k)" by (cases p)
    have r: "CalculateANratio X ?tb (SZA (ctx st)) (SAA (ctx st)) (pix_VZA (ctx st)) (pix_VAA (ctx st)) = Some (w, k)"
      using Some p by (simp add: band_ratio_def s)
    have neg: "band_negative X s icls b v = negative_albedo (lndSR_ScaFct s) (clamp_SR (lndSR_ScaFct s) v) k w"
      using True Some p by (simp add: band_negative_def)
    have fac: "band_factors X s icls b v = (if band_negative X s icls b v then (1, 1) else (k, w))"
      using True Some p by (simp add: band_factors_def)
    obtain st' where st': "ANratio_albedo X col b ?tb st = Some st'"
      "ctx st' = put_SR s b col (clamp_SR (lndSR_ScaFct s) v)"
      "lndPixAlbedo st' = (lndPixAlbedo st)
          (b * 2 := lndSR_ScaFct s * real_of_int (sint (clamp_SR (lndSR_ScaFct s) v))
              * (if band_negative X s icls b v then 1 else k),
           b * 2 + 1 := lndSR_ScaFct s * real_of_int (sint (clamp_SR (lndSR_ScaFct s) v))
              * (if band_negative X s icls b v then 1 else w))"
      "QA st' = QA st"
      "tmpQA st' = (if band_negative X s icls b v
                    then (tmpQA st)(3 := tmpQA st 3 + 1) else tmpQA st)"
      "lndSR_flag st' = lndSR_flag st"
      using ANratio_albedo_Some [OF r refl refl, where b = b and col = col] unfolding s v neg by blast
    have nb: "narrow_band X col b ?tb st = Continue (fill_check col b st')"
      using nf t0 st'(1) by (simp add: narrow_band_def isotropic_albedo_skip)
    have sr': "SR st' b col = clamp_SR (lndSR_ScaFct s) v"
      using st'(2) by (simp add: SR_def)
    have fl: "SR_fillValue (ctx st') = SR_fillValue s"
      using st'(2) by simp
    have "fill_check col b st' = \<lparr>ctx = put_SR s b col (band_SR X s icls b v),
             lndPixAlbedo = band_albedo X s icls b v (lndPixAlbedo st),
             QA = QA st,
             tmpQA = (\<lambda>k. tmpQA st k
                + (if k = 3 then band_incr X s icls b v 3 else if k = 4 then band_incr X s icls b v 4
                   else if k = 5 then band_incr X s icls b v 5 else 0)),
             lndSR_flag = lndSR_flag st + of_bool (sint (band_SR X s icls b v) = SR_fillValue s)\<rparr>"
    proof (rule state_eqI)
      show "ctx (fill_check col b st') = put_SR s b col (band_SR X s icls b v)"
        by (simp add: st'(2) bsr)
      show "lndPixAlbedo (fill_check col b st') = band_albedo X s icls b v (lndPixAlbedo st)"
        using nf by (simp add: st'(3) bsr band_albedo_def fac v s)
      show "QA (fill_check col b st') = QA st" by (simp add: st'(4))
      show "tmpQA (fill_check col b st') = (\<lambda>k. tmpQA st k
                + (if k = 3 then band_incr X s icls b v 3 else if k = 4 then band_incr X s icls b v 4
                   else if k = 5 then band_incr X s icls b v 5 else 0))"
        using True by (auto simp add: st'(5) sr' fl bsr band_incr_def fun_eq_iff)
      show "lndSR_flag (fill_check col b st') = lndSR_flag st + of_bool (sint (band_SR X s icls b v) = SR_fillValue s)"
        by (simp add: st'(6) sr' fl bsr)
    qed
    then show ?thesis
      unfolding nb using True Some by simp
  qed
next
  case False
  have v: "SR st b col = v" by (simp add: SR_def v_def)
  have s: "ctx st = s" by (simp add: s_def)
  have bsr: "band_SR X s icls b v = v"
    using False by (simp add: band_SR_def)
  have fac: "band_factors X s icls b v = (1, 1)" "\<not> band_negative X s icls b v"
    using False by (simp_all add: band_factors_def band_negative_def)
  have same: "put_SR s b col v = s"
    by (simp add: put_SR_same v_def s_def)
  have nb: "narrow_band X col b (band_weights X s icls b) st =
     Continue (fill_check col b (isotropic_albedo col b (fst (band_weights X s icls b)) st))"
    using False by (auto simp add: narrow_band_def uses_ANratio_def v s)
  have "fill_check col b (isotropic_albedo col b (fst (band_weights X s icls b)) st) =
      \<lparr>ctx = put_SR s b col (band_SR X s icls b v),
             lndPixAlbedo = band_albedo X s icls b v (lndPixAlbedo st),
             QA = QA st,
             tmpQA = (\<lambda>k. tmpQA st k
                + (if k = 3 then band_incr X s icls b v 3 else if k = 4 then band_incr X s icls b v 4
                   else if k = 5 then band_incr X s icls b v 5 else 0)),
             lndSR_flag = lndSR_flag st + of_bool (sint (band_SR X s icls b v) = SR_fillValue s)\<rparr>"
  proof (cases "sint v = SR_fillValue s")
    case True
    then have sk: "isotropic_albedo col b (fst (band_weights X s icls b)) st = st"
      by (simp add: isotropic_albedo_skip v s)
    show ?thesis unfolding sk
      using True False
      by (intro state_eqI) (auto simp add: v s bsr band_albedo_def band_incr_def fac fun_eq_iff same)
  next
    case nofill: False
    with False have t0: "fst (band_weights X s icls b) = 0"
      by (simp add: uses_ANratio_def)
    show ?thesis
      using nofill False isotropic_albedo_apply [of "fst (band_weights X s icls b)" st b col, OF t0]
      by (intro state_eqI) (auto simp add: v s bsr band_albedo_def band_incr_def fac fun_eq_iff same)
  qed
  then show ?thesis
    unfolding nb using False by simp
qed

lemma band_body_eq:
  "band_body X icls col b st =
     (if band_fails X (ctx st) icls b then Return_FAILURE st
      else if uses_ANratio X (ctx st) icls b (OneRowlndSR (ctx st) b col)
              \<and> band_ratio X (ctx st) icls b = None then Exit
      else Continue (band_state X icls col b st))"
proof (cases "band_fails X (ctx st) icls b")
  case True
  then show ?thesis
    by (simp add: band_body_def resolve_BRDFcls_def band_fails_def)
next
  case False
  let ?s = "ctx st"
  let ?T = "TMBandIndx ! b"
  define st1 where "st1 = (if BRDFava_flg ?s icls ?T then incr_tmpQA st 2 else purity_tally X icls st)"
  have res: "resolve_BRDFcls X icls ?T st = Some (band_class X ?s icls b, st1)"
    using False by (auto simp add: resolve_BRDFcls_def band_fails_def band_class_def st1_def Let_def)
  have sel: "ctx st1 = ?s" "lndPixAlbedo st1 = lndPixAlbedo st" "QA st1 = QA st"
    "lndSR_flag st1 = lndSR_flag st"
    by (simp_all add: st1_def)
  have tq: "tmpQA st1 = (\<lambda>k. tmpQA st k + (if k < 3 then band_incr X ?s icls b (OneRowlndSR ?s b col) k else 0))"
    by (auto simp add: st1_def band_incr_def fun_eq_iff)
  have bb: "band_body X icls col b st = narrow_band X col b (band_weights X (ctx st) icls b) st1"
    by (simp add: band_body_def res band_weights_def sel)
  note nb = narrow_band_eq [where st = st1 and X = X and col = col and b = b and icls = icls, unfolded sel]
  have tq': "(\<lambda>k. tmpQA st1 k
                + (if k = 3 then band_incr X ?s icls b (OneRowlndSR ?s b col) 3
                   else if k = 4 then band_incr X ?s icls b (OneRowlndSR ?s b col) 4
                   else if k = 5 then band_incr X ?s icls b (OneRowlndSR ?s b col) 5 else 0))
        = (\<lambda>k. tmpQA st k + band_incr X ?s icls b (OneRowlndSR ?s b col) k)"
    unfolding tq by (auto simp add: fun_eq_iff band_incr_def)
  show ?thesis
    unfolding bb nb tq' using False
    by (simp add: band_state_def Let_def)
qed

lemma band_state_sel [simp]:
  "ctx (band_state X icls col b st) =
     put_SR (ctx st) b col (band_SR X (ctx st) icls b (OneRowlndSR (ctx st) b col))"
  "lndPixAlbedo (band_state X icls col b st) =
     band_albedo X (ctx st) icls b (OneRowlndSR (ctx st) b col) (lndPixAlbedo st)"
  "QA (band_state X icls col b st) = QA st"
  "tmpQA (band_state X icls col b st) =
     (\<lambda>k. tmpQA st k + band_incr X (ctx st) icls b (OneRowlndSR (ctx st) b col) k)"
  "lndSR_flag (band_state X icls col b st) =
     lndSR_flag st + of_bool (sint (band_SR X (ctx st) icls b (OneRowlndSR (ctx st) b col)) = SR_fillValue (ctx st))"
  by (simp_all add: band_state_def Let_def)

subsection \<open>The broadband conversion\<close>

lemma n2b_body_eq:
  "b < 6 \<Longrightarrow> n2b_body sw b st = st\<lparr>lndPixAlbedo := (lndPixAlbedo st)
      (12 := lndPixAlbedo st 12 + sw ! b * lndPixAlbedo st (b * 2 + 0),
       13 := lndPixAlbedo st 13 + sw ! b * lndPixAlbedo st (b * 2 + 1),
       14 := lndPixAlbedo st 14 + TM_coefficents_vis ! b * lndPixAlbedo st (b * 2 + 0),
       15 := lndPixAlbedo st 15 + TM_coefficents_vis ! b * lndPixAlbedo st (b * 2 + 1),
       16 := lndPixAlbedo st 16 + TM_coefficents_nir ! b * lndPixAlbedo st (b * 2 + 0),
       17 := lndPixAlbedo st 17 + TM_coefficents_nir ! b * lndPixAlbedo st (b * 2 + 1))\<rparr>"
  by (simp add: n2b_body_def accumulate_def set_albedo_def)

lemma n2b_sum_cong:
  "(\<And>b. b \<in> set bs \<Longrightarrow> alb (b * 2 + k) = alb' (b * 2 + k)) \<Longrightarrow> n2b_sum c alb k bs = n2b_sum c alb' k bs"
  unfolding n2b_sum_def by (induction bs) auto

lemma n2b_sum_upd:
  "\<forall>b\<in>set bs. b < 6 \<Longrightarrow> k < 2 \<Longrightarrow>
   n2b_sum c (alb(12 := v12, 13 := v13, 14 := v14, 15 := v15, 16 := v16, 17 := v17)) k bs
   = n2b_sum c alb k bs"
  by (rule n2b_sum_cong) auto

lemma n2b_sum_Cons: "n2b_sum c alb k (b # bs) = c ! b * alb (b * 2 + k) + n2b_sum c alb k bs"
  by (simp add: n2b_sum_def)

lemma fold_n2b_body:
  "\<forall>b\<in>set bs. b < 6 \<Longrightarrow>
   fold (n2b_body sw) bs st = st\<lparr>lndPixAlbedo := (lndPixAlbedo st)
      (12 := lndPixAlbedo st 12 + n2b_sum sw (lndPixAlbedo st) 0 bs,
       13 := lndPixAlbedo st 13 + n2b_sum sw (lndPixAlbedo st) 1 bs,
       14 := lndPixAlbedo st 14 + n2b_sum TM_coefficents_vis (lndPixAlbedo st) 0 bs,
       15 := lndPixAlbedo st 15 + n2b_sum TM_coefficents_vis (lndPixAlbedo st) 1 bs,
       16 := lndPixAlbedo st 16 + n2b_sum TM_coefficents_nir (lndPixAlbedo st) 0 bs,
       17 := lndPixAlbedo st 17 + n2b_sum TM_coefficents_nir (lndPixAlbedo st) 1 bs)\<rparr>"
proof (induction bs arbitrary: st)
  case Nil
  show ?case by (simp add: n2b_sum_def)
next
  case (Cons b bs)
  have b: "b < 6" and bs: "\<forall>b\<in>set bs. b < 6" using Cons.prems by auto
  show ?case
    unfolding fold_simps Cons.IH [OF bs]
    by (simp add: n2b_body_eq [OF b] n2b_sum_upd [OF bs] n2b_sum_Cons)
       (rule arg_cong [where f = "\<lambda>f. lndPixAlbedo_update f st"], auto simp: fun_eq_iff)
qed

lemma lambert_body_eq:
  "a \<noteq> b \<Longrightarrow> lambert_body c col a b i st = st\<lparr>lndPixAlbedo := (lndPixAlbedo st)
      (a := lndPixAlbedo st a + c ! i * real_of_int (sint (OneRowlndSR (ctx st) i col)) * lndSR_ScaFct (ctx st),
       b := lndPixAlbedo st b + c ! i * real_of_int (sint (OneRowlndSR (ctx st) i col)) * lndSR_ScaFct (ctx st))\<rparr>"
  by (simp add: lambert_body_def set_albedo_def SR_def Let_def)

lemma fold_lambert_body:
  "a \<noteq> b \<Longrightarrow> fold (lambert_body c col a b) bs st = st\<lparr>lndPixAlbedo := (lndPixAlbedo st)
      (a := lndPixAlbedo st a + lambert_sum c (ctx st) col bs,
       b := lndPixAlbedo st b + lambert_sum c (ctx st) col bs)\<rparr>"
proof (induction bs arbitrary: st)
  case Nil
  show ?case by (simp add: lambert_sum_def)
next
  case (Cons i bs)
  show ?case
    unfolding fold_simps Cons.IH [OF Cons.prems]
    using Cons.prems
    by (simp add: lambert_body_eq lambert_sum_def)
       (rule arg_cong [where f = "\<lambda>f. lndPixAlbedo_update f st"], auto simp: fun_eq_iff)
qed

lemma lambert_block_eq:
  "a \<noteq> b \<Longrightarrow> lambert_block c col a b st =
     (if lndPixAlbedo st a \<le> 0 \<or> lndPixAlbedo st b \<le> 0
      then st\<lparr>lndPixAlbedo := (lndPixAlbedo st)
             (a := lndPixAlbedo st a + lambert_sum c (ctx st) col [0..<nat (nbands (ctx st))] + c ! 6,
              b := lndPixAlbedo st b + lambert_sum c (ctx st) col [0..<nat (nbands (ctx st))] + c ! 6),
             QA := 4\<rparr>
      else st)"
  by (simp add: lambert_block_def lambert_loop_def fold_lambert_body add_intercept_def set_albedo_def Let_def)

lemma n2b_stage_eq:
  assumes "nbands (ctx st) \<le> 6"
  shows "add_intercept TM_coefficents_nir 16 17
                (add_intercept TM_coefficents_vis 14 15
                   (add_intercept sw 12 13
                      (n2b_loop sw (zero_broadband st))))
     = st\<lparr>lndPixAlbedo := (lndPixAlbedo st)
         (12 := bb_sum sw (ctx st) (lndPixAlbedo st) 0,
          13 := bb_sum sw (ctx st) (lndPixAlbedo st) 1,
          14 := bb_sum TM_coefficents_vis (ctx st) (lndPixAlbedo st) 0,
          15 := bb_sum TM_coefficents_vis (ctx st) (lndPixAlbedo st) 1,
          16 := bb_sum TM_coefficents_nir (ctx st) (lndPixAlbedo st) 0,
          17 := bb_sum TM_coefficents_nir (ctx st) (lndPixAlbedo st) 1)\<rparr>"
proof -
  have bs: "\<forall>b\<in>set [0..<nat (nbands (ctx st))]. b < 6"
    using assms by auto
  have z: "ctx (zero_broadband st) = ctx st"
    by (simp add: zero_broadband_def)
  show ?thesis
    unfolding n2b_loop_def z fold_n2b_body [OF bs]
    by (simp add: zero_broadband_def add_intercept_def set_albedo_def Let_def bb_sum_def
          n2b_sum_upd [OF bs])
qed

lemma state_ext_cong:
  "f = g \<Longrightarrow> q = q' \<Longrightarrow> st\<lparr>lndPixAlbedo := f, QA := q\<rparr> = st\<lparr>lndPixAlbedo := g, QA := q'\<rparr>"
  "f = g \<Longrightarrow> QA st = q' \<Longrightarrow> st\<lparr>lndPixAlbedo := f\<rparr> = st\<lparr>lndPixAlbedo := g, QA := q'\<rparr>"
  by auto

lemma broadband_eq:
  assumes "nbands (ctx st) \<le> 6"
  shows "broadband sw col st
     = st\<lparr>lndPixAlbedo := (lndPixAlbedo st)
         (12 := bb_value sw (ctx st) col (lndPixAlbedo st) 0,
          13 := bb_value sw (ctx st) col (lndPixAlbedo st) 1,
          14 := bb_value TM_coefficents_vis (ctx st) col (lndPixAlbedo st) 0,
          15 := bb_value TM_coefficents_vis (ctx st) col (lndPixAlbedo st) 1,
          16 := bb_value TM_coefficents_nir (ctx st) col (lndPixAlbedo st) 0,
          17 := bb_value TM_coefficents_nir (ctx st) col (lndPixAlbedo st) 1),
        QA := (if bb_rescue sw (ctx st) (lndPixAlbedo st)
                  \<or> bb_rescue TM_coefficents_vis (ctx st) (lndPixAlbedo st)
                  \<or> bb_rescue TM_coefficents_nir (ctx st) (lndPixAlbedo st) then 4 else QA st)\<rparr>"
proof -
  let ?A = "lndPixAlbedo st" and ?s = "ctx st"
  let ?vis = TM_coefficents_vis and ?nir = TM_coefficents_nir
  have 1: "lambert_block sw col 12 13
             (st\<lparr>lndPixAlbedo := ?A(12 := bb_sum sw ?s ?A 0, 13 := bb_sum sw ?s ?A 1,
                  14 := v14, 15 := v15, 16 := v16, 17 := v17)\<rparr>)
           = st\<lparr>lndPixAlbedo := ?A(12 := bb_value sw ?s col ?A 0, 13 := bb_value sw ?s col ?A 1,
                  14 := v14, 15 := v15, 16 := v16, 17 := v17),
                QA := (if bb_rescue sw ?s ?A then 4 else QA st)\<rparr>" for v14 v15 v16 v17
    by (cases "bb_rescue sw ?s ?A")
       (auto simp add: lambert_block_eq bb_value_def bb_rescue_def fun_eq_iff intro!: state_ext_cong)
  have 2: "lambert_block ?vis col 14 15
             (st\<lparr>lndPixAlbedo := ?A(12 := v12, 13 := v13,
                  14 := bb_sum ?vis ?s ?A 0, 15 := bb_sum ?vis ?s ?A 1, 16 := v16, 17 := v17), QA := q\<rparr>)
           = st\<lparr>lndPixAlbedo := ?A(12 := v12, 13 := v13,
                  14 := bb_value ?vis ?s col ?A 0, 15 := bb_value ?vis ?s col ?A 1, 16 := v16, 17 := v17),
                QA := (if bb_rescue ?vis ?s ?A then 4 else q)\<rparr>" for v12 v13 v16 v17 q
    by (cases "bb_rescue ?vis ?s ?A")
       (auto simp add: lambert_block_eq bb_value_def bb_rescue_def fun_eq_iff intro!: state_ext_cong)
  have 3: "lambert_block ?nir col 16 17
             (st\<lparr>lndPixAlbedo := ?A(12 := v12, 13 := v13, 14 := v14, 15 := v15,
                  16 := bb_sum ?nir ?s ?A 0, 17 := bb_sum ?nir ?s ?A 1), QA := q\<rparr>)
           = st\<lparr>lndPixAlbedo := ?A(12 := v12, 13 := v13, 14 := v14, 15 := v15,
                  16 := bb_value ?nir ?s col ?A 0, 17 := bb_value ?nir ?s col ?A 1),
                QA := (if bb_rescue ?nir ?s ?A then 4 else q)\<rparr>" for v12 v13 v14 v15 q
    by (cases "bb_rescue ?nir ?s ?A")
       (auto simp add: lambert_block_eq bb_value_def bb_rescue_def fun_eq_iff intro!: state_ext_cong)
  show ?thesis
    unfolding broadband_def n2b_stage_eq [OF assms] 1 2 3
    by simp
qed

subsection \<open>The band loop\<close>

lemma only_raster_refl [simp]: "only_raster s s"
  by (simp add: only_raster_def)

lemma only_raster_put: "only_raster s s' \<Longrightarrow> only_raster s (put_SR s' b col v)"
  unfolding only_raster_def put_SR_def
  by (cases s, cases s') simp

lemma only_raster_fields:
  assumes "only_raster s s'"
  shows "instrument s' = instrument s" "nbands s' = nbands s" "lndSR_ScaFct s' = lndSR_ScaFct s"
    "SR_fillValue s' = SR_fillValue s" "SZA s' = SZA s" "SAA s' = SAA s" "pix_VZA s' = pix_VZA s"
    "pix_VAA s' = pix_VAA s" "Clsdata s' = Clsdata s" "Cls_fillValue s' = Cls_fillValue s"
    "actu_ncls s' = actu_ncls s" "pure_thrsh s' = pure_thrsh s" "BRDF_paras s' = BRDF_paras s"
  using assms unfolding only_raster_def by (cases s, cases s', simp)+

lemma band_loop_append:
  "band_loop X icls col (xs @ ys) st =
     (case band_loop X icls col xs st of
        Continue st' \<Rightarrow> band_loop X icls col ys st'
      | Return_FAILURE st' \<Rightarrow> Return_FAILURE st'
      | Exit \<Rightarrow> Exit)"
  by (induction xs arbitrary: st) (simp_all split: flow.splits)

lemma band_body_Continue: "band_body X icls col b st = Continue st' \<Longrightarrow> st' = band_state X icls col b st"
  by (simp add: band_body_eq split: if_splits)

lemma band_body_Return: "band_body X icls col b st = Return_FAILURE st' \<Longrightarrow> st' = st"
  by (simp add: band_body_eq split: if_splits)

lemma band_albedo_other: "i \<noteq> b * 2 \<Longrightarrow> i \<noteq> b * 2 + 1 \<Longrightarrow> band_albedo X s icls b v alb i = alb i"
  by (simp add: band_albedo_def)

lemma band_loop_frame:
  assumes "stopped (band_loop X icls col bs st) st'"
  shows "only_raster (ctx st) (ctx st')"
    and "QA st' = QA st"
    and "b \<notin> set bs \<or> c \<noteq> col \<Longrightarrow> OneRowlndSR (ctx st') b c = OneRowlndSR (ctx st) b c"
    and "\<forall>b\<in>set bs. i \<noteq> b * 2 \<and> i \<noteq> b * 2 + 1 \<Longrightarrow> lndPixAlbedo st' i = lndPixAlbedo st i"
    and "lndSR_flag st \<le> lndSR_flag st'"
  using assms
proof (induction bs arbitrary: st)
  case Nil
  {
    case 1 then show ?case by (simp add: stopped_def)
  next
    case 2 then show ?case by (simp add: stopped_def)
  next
    case 3 then show ?case by (simp add: stopped_def)
  next
    case 4 then show ?case by (simp add: stopped_def)
  next
    case 5 then show ?case by (simp add: stopped_def)
  }
next
  case (Cons a bs)
  {
    case 1
    show ?case
    proof (cases "band_body X icls col a st")
      case (Continue m)
      with 1 have r: "stopped (band_loop X icls col bs m) st'" by simp
      have m: "m = band_state X icls col a st" using Continue by (rule band_body_Continue)
      from Cons.IH(1) [OF r] show ?thesis
        unfolding m by (simp add: only_raster_def put_SR_def)
    next
      case (Return_FAILURE m)
      with 1 band_body_Return [OF Return_FAILURE] show ?thesis by (simp add: stopped_def)
    next
      case Exit
      with 1 show ?thesis by (simp add: stopped_def)
    qed
  next
    case 2
    show ?case
    proof (cases "band_body X icls col a st")
      case (Continue m)
      with 2 have r: "stopped (band_loop X icls col bs m) st'" by simp
      have m: "m = band_state X icls col a st" using Continue by (rule band_body_Continue)
      from Cons.IH(2) [OF r] show ?thesis unfolding m by simp
    next
      case (Return_FAILURE m)
      with 2 band_body_Return [OF Return_FAILURE] show ?thesis by (simp add: stopped_def)
    next
      case Exit
      with 2 show ?thesis by (simp add: stopped_def)
    qed
  next
    case 3
    show ?case
    proof (cases "band_body X icls col a st")
      case (Continue m)
      with 3 have r: "stopped (band_loop X icls col bs m) st'" by simp
      have m: "m = band_state X icls col a st" using Continue by (rule band_body_Continue)
      from 3(1) have "b \<notin> set bs \<or> c \<noteq> col" by auto
      from Cons.IH(3) [OF this r] 3(1) show ?thesis unfolding m by auto
    next
      case (Return_FAILURE m)
      with 3 band_body_Return [OF Return_FAILURE] show ?thesis by (simp add: stopped_def)
    next
      case Exit
      with 3 show ?thesis by (simp add: stopped_def)
    qed
  next
    case 4
    show ?case
    proof (cases "band_body X icls col a st")
      case (Continue m)
      with 4 have r: "stopped (band_loop X icls col bs m) st'" by simp
      have m: "m = band_state X icls col a st" using Continue by (rule band_body_Continue)
      from 4(1) have "\<forall>b\<in>set bs. i \<noteq> b * 2 \<and> i \<noteq> b * 2 + 1" by auto
      from Cons.IH(4) [OF this r] 4(1) show ?thesis unfolding m by (simp add: band_albedo_other)
    next
      case (Return_FAILURE m)
      with 4 band_body_Return [OF Return_FAILURE] show ?thesis by (simp add: stopped_def)
    next
      case Exit
      with 4 show ?thesis by (simp add: stopped_def)
    qed
  next
    case 5
    show ?case
    proof (cases "band_body X icls col a st")
      case (Continue m)
      with 5 have r: "stopped (band_loop X icls col bs m) st'" by simp
      have m: "m = band_state X icls col a st" using Continue by (rule band_body_Continue)
      from Cons.IH(5) [OF r] show ?thesis unfolding m by (simp add: of_bool_def split: if_splits)
    next
      case (Return_FAILURE m)
      with 5 band_body_Return [OF Return_FAILURE] show ?thesis by (simp add: stopped_def)
    next
      case Exit
      with 5 show ?thesis by (simp add: stopped_def)
    qed
  }
qed

lemma raster_independent_stable: "raster_independent X \<Longrightarrow> closest_stable X s icls b"
  by (simp add: raster_independent_def closest_stable_def)

lemma BRDFava_flg_cong: "only_raster s s' \<Longrightarrow> BRDFava_flg s' = BRDFava_flg s"
  by (simp add: BRDFava_flg_def fun_eq_iff only_raster_fields)

lemma tmp_BRDF_cong: "only_raster s s' \<Longrightarrow> tmp_BRDF s' = tmp_BRDF s"
  by (simp add: tmp_BRDF_def fun_eq_iff only_raster_fields)

lemma band_class_cong:
  assumes "only_raster s s'" "closest_stable X s icls b"
  shows "band_class X s' icls b = band_class X s icls b"
    and "band_fails X s' icls b = band_fails X s icls b"
proof -
  have s': "s' = s\<lparr>OneRowlndSR := OneRowlndSR s'\<rparr>" using assms(1) by (simp add: only_raster_def)
  have "BRDFava_flg s icls (TMBandIndx ! b) \<Longrightarrow>
     getClosestCls X s' icls (TMBandIndx ! b) = getClosestCls X s icls (TMBandIndx ! b)"
    using assms(2) by (subst s') (simp add: closest_stable_def)
  then show "band_class X s' icls b = band_class X s icls b"
    and "band_fails X s' icls b = band_fails X s icls b"
    by (auto simp add: band_class_def band_fails_def BRDFava_flg_cong [OF assms(1)])
qed

lemma band_cong:
  assumes "only_raster s s'" "closest_stable X s icls b"
  shows "band_weights X s' icls b = band_weights X s icls b"
    and "band_ratio X s' icls b = band_ratio X s icls b"
    and "uses_ANratio X s' icls b = uses_ANratio X s icls b"
    and "band_SR X s' icls b = band_SR X s icls b"
    and "band_negative X s' icls b = band_negative X s icls b"
    and "band_factors X s' icls b = band_factors X s icls b"
    and "band_albedo X s' icls b = band_albedo X s icls b"
    and "band_incr X s' icls b = band_incr X s icls b"
proof -
  note f = only_raster_fields [OF assms(1)]
  show w: "band_weights X s' icls b = band_weights X s icls b"
    by (simp add: band_weights_def band_class_cong [OF assms] tmp_BRDF_cong [OF assms(1)])
  show r: "band_ratio X s' icls b = band_ratio X s icls b"
    by (simp add: band_ratio_def w f)
  show u: "uses_ANratio X s' icls b = uses_ANratio X s icls b"
    by (simp add: uses_ANratio_def w f fun_eq_iff)
  show v: "band_SR X s' icls b = band_SR X s icls b"
    by (simp add: band_SR_def u f fun_eq_iff)
  show n: "band_negative X s' icls b = band_negative X s icls b"
    by (auto simp add: band_negative_def u r f fun_eq_iff split: option.splits)
  show fa: "band_factors X s' icls b = band_factors X s icls b"
    by (simp add: band_factors_def u r n fun_eq_iff)
  show "band_albedo X s' icls b = band_albedo X s icls b"
    by (simp add: band_albedo_def v fa f fun_eq_iff)
  show "band_incr X s' icls b = band_incr X s icls b"
    by (simp add: band_incr_def u n v f fun_eq_iff BRDFava_flg_cong [OF assms(1)])
qed

lemma loop_state_Cons:
  assumes "a \<notin> set bs" "only_raster s (ctx st)" "closest_stable X s icls a"
    "OneRowlndSR (ctx st) a col = OneRowlndSR s a col"
  shows "loop_state X s icls col bs (band_state X icls col a st) = loop_state X s icls col (a # bs) st"
proof -
  note c = band_cong [OF assms(2,3)]
  note f = only_raster_fields [OF assms(2)]
  show ?thesis
    unfolding loop_state_def
    apply (simp add: c assms(4) f)
    apply (intro conjI)
     apply (simp add: put_SR_def fun_eq_iff c assms(4))
    apply (simp add: fun_eq_iff)
    done
qed

lemma band_loop_closed:
  assumes "distinct bs" "only_raster s (ctx st)"
    "\<forall>b\<in>set bs. OneRowlndSR (ctx st) b col = OneRowlndSR s b col"
    "\<forall>b\<in>set bs. closest_stable X s icls b"
    "\<forall>b\<in>set bs. \<not> band_stops X s icls col b"
  shows "band_loop X icls col bs st = Continue (loop_state X s icls col bs st)"
  using assms
proof (induction bs arbitrary: st)
  case Nil
  show ?case by (simp add: loop_state_def)
next
  case (Cons a bs)
  let ?m = "band_state X icls col a st"
  have a: "a \<notin> set bs" "distinct bs" using Cons.prems(1) by auto
  have st: "closest_stable X s icls a" "OneRowlndSR (ctx st) a col = OneRowlndSR s a col"
    "\<not> band_stops X s icls col a"
    using Cons.prems by auto
  note c = band_cong [OF Cons.prems(2) st(1)] band_class_cong [OF Cons.prems(2) st(1)]
  have step: "band_body X icls col a st = Continue ?m"
    using st(3) by (simp add: band_body_eq c st(2) band_stops_def)
  have or: "only_raster s (ctx ?m)"
    by (simp add: only_raster_put Cons.prems(2))
  have cells: "\<forall>b\<in>set bs. OneRowlndSR (ctx ?m) b col = OneRowlndSR s b col"
    using Cons.prems(3) a(1) by auto
  have "band_loop X icls col bs ?m = Continue (loop_state X s icls col bs ?m)"
    using Cons.IH [OF a(2) or cells] Cons.prems(4,5) by simp
  then show ?case
    by (simp add: step loop_state_Cons [OF a(1) Cons.prems(2) st(1,2)])
qed

subsection \<open>The function\<close>

lemma assign_QA_first_match:
  "assign_QA st = st\<lparr>QA := first_match (QA_rules (tmpQA st) (nbands (ctx st))) (QA st)\<rparr>"
  by (simp add: assign_QA_def first_match_def QA_rules_def)

lemma assign_QA_sel [simp]:
  "ctx (assign_QA st) = ctx st" "lndPixAlbedo (assign_QA st) = lndPixAlbedo st"
  "tmpQA (assign_QA st) = tmpQA st" "lndSR_flag (assign_QA st) = lndSR_flag st"
  by (simp_all add: assign_QA_def)

lemma initial_state_sel [simp]:
  "ctx (initial_state s out qa) = s" "lndPixAlbedo (initial_state s out qa) = out"
  "QA (initial_state s out qa) = qa" "tmpQA (initial_state s out qa) = (\<lambda>k. 0)"
  "lndSR_flag (initial_state s out qa) = 0"
  by (simp_all add: initial_state_def)

lemma loop_state_sel [simp]:
  "ctx (loop_state X s icls col bs st) = (ctx st)\<lparr>OneRowlndSR :=
          (\<lambda>b c. if b \<in> set bs \<and> c = col then band_SR X s icls b (OneRowlndSR s b col)
                 else OneRowlndSR (ctx st) b c)\<rparr>"
  "lndPixAlbedo (loop_state X s icls col bs st) =
      fold (\<lambda>b. band_albedo X s icls b (OneRowlndSR s b col)) bs (lndPixAlbedo st)"
  "QA (loop_state X s icls col bs st) = QA st"
  "tmpQA (loop_state X s icls col bs st) =
      (\<lambda>k. tmpQA st k + (\<Sum>b\<leftarrow>bs. band_incr X s icls b (OneRowlndSR s b col) k))"
  "lndSR_flag (loop_state X s icls col bs st) = lndSR_flag st
         + (\<Sum>b\<leftarrow>bs. of_bool (sint (band_SR X s icls b (OneRowlndSR s b col)) = SR_fillValue s))"
  by (simp_all add: loop_state_def)

lemma CalculateAlbedo_invalid:
  "Clsdata s col = Cls_fillValue s \<or> Clsdata s col > actu_ncls s \<or> Clsdata s col < 0 \<Longrightarrow>
   CalculateAlbedo X s out row col qa snow = Returned FAILURE s out qa"
  by (simp add: CalculateAlbedo_def Let_def)

lemma CalculateAlbedo_valid:
  "\<not> (Clsdata s col = Cls_fillValue s \<or> Clsdata s col > actu_ncls s \<or> Clsdata s col < 0) \<Longrightarrow>
   CalculateAlbedo X s out row col qa snow =
     (case band_loop X (Clsdata s col) col [0..<nat (nbands s)] (initial_state s out qa) of
        Exit \<Rightarrow> Exited
      | Return_FAILURE st \<Rightarrow> Returned FAILURE (ctx st) (lndPixAlbedo st) (QA st)
      | Continue st \<Rightarrow>
          if lndSR_flag st \<noteq> 0
          then Returned FAILURE (ctx st) (lndPixAlbedo st) (- 1)
          else Returned SUCCESS
                 (ctx (broadband (TM_coefficents_sw (instrument s) snow) col (assign_QA st)))
                 (lndPixAlbedo (broadband (TM_coefficents_sw (instrument s) snow) col (assign_QA st)))
                 (QA (broadband (TM_coefficents_sw (instrument s) snow) col (assign_QA st))))"
  by (simp add: CalculateAlbedo_def Let_def split: flow.splits)

lemma CalculateAlbedo_closed:
  assumes "\<not> (Clsdata s col = Cls_fillValue s \<or> Clsdata s col > actu_ncls s \<or> Clsdata s col < 0)"
    and "\<forall>b<nat (nbands s). closest_stable X s (Clsdata s col) b"
    and "\<forall>b<nat (nbands s). \<not> band_stops X s (Clsdata s col) col b"
    and "st = loop_state X s (Clsdata s col) col [0..<nat (nbands s)] (initial_state s out qa)"
    and "st' = broadband (TM_coefficents_sw (instrument s) snow) col (assign_QA st)"
  shows "CalculateAlbedo X s out row col qa snow =
     (if lndSR_flag st \<noteq> 0 then Returned FAILURE (ctx st) (lndPixAlbedo st) (- 1)
      else Returned SUCCESS (ctx st') (lndPixAlbedo st') (QA st'))"
proof -
  have "band_loop X (Clsdata s col) col [0..<nat (nbands s)] (initial_state s out qa) = Continue st"
    unfolding assms(4) using assms(2,3)
    by (intro band_loop_closed) simp_all
  then show ?thesis
    by (simp add: CalculateAlbedo_valid [OF assms(1)] assms(5))
qed

subsection \<open>Evaluation on the sample pixel\<close>

lemma example_sel [simp]:
  "instrument example_sensor = OLI" "nbands example_sensor = 6"
  "lndSR_ScaFct example_sensor = 1 / 10000" "SR_fillValue example_sensor = - 9999"
  "SZA example_sensor = 30" "SAA example_sensor = 120" "pix_VZA example_sensor = 5"
  "pix_VAA example_sensor = 100" "Clsdata example_sensor = (\<lambda>c. 1)"
  "Cls_fillValue example_sensor = 255" "actu_ncls example_sensor = 10"
  "pure_thrsh example_sensor = (\<lambda>c. 20)" "BRDF_paras example_sensor = (\<lambda>c b k. 100)"
  "OneRowlndSR example_sensor = (\<lambda>b c. 1000)"
  by (simp_all add: example_sensor_def)

lemma example_extern_sel [simp]:
  "CalculateANratio example_extern = (\<lambda>tb sza saa vza vaa. Some (2, 3))"
  "getClosestCls example_extern = (\<lambda>s icls b. - 1)"
  "PUREPIX_limit example_extern = 15"
  by (simp_all add: example_extern_def)

lemma example_independent [simp]: "raster_independent example_extern"
  by (simp add: raster_independent_def)

lemma upt_6: "[0..<6] = [0, 1, 2, 3, 4, 5::nat]"
  by (simp add: upt_rec)

lemmas band_eval = band_stops_def band_fails_def BRDFava_flg_def uses_ANratio_def band_ratio_def
  band_weights_def tmp_BRDF_def int16_of_double_def trunc_double_def band_class_def band_SR_def
  clamp_SR_def over_limit_def band_albedo_def band_factors_def band_negative_def
  negative_albedo_def band_incr_def

lemmas broadband_eval = bb_value_def bb_rescue_def bb_sum_def n2b_sum_def lambert_sum_def
  TM_coefficents_sw_def TM_coefficents_sw_0_def TM_coefficents_vis_def TM_coefficents_nir_def
  LC8_n2b_lib_def LC8_n2b_lib_snow_def MSI_n2b_lib_sw_def MSI_n2b_lib_sw_snow_def

subsection \<open>What the band loop leaves unchanged\<close>

lemma band_loop_cells:
  assumes "stopped (band_loop X icls col bs st) st'" "distinct bs"
  shows "OneRowlndSR (ctx st') b col = OneRowlndSR (ctx st) b col
       \<or> OneRowlndSR (ctx st') b col = clamp_SR (lndSR_ScaFct (ctx st)) (OneRowlndSR (ctx st) b col)"
  using assms
proof (induction bs arbitrary: st)
  case Nil
  then show ?case by (simp add: stopped_def)
next
  case (Cons a bs)
  show ?case
  proof (cases "band_body X icls col a st")
    case (Continue m)
    with Cons.prems have r: "stopped (band_loop X icls col bs m) st'" by simp
    have m: "m = band_state X icls col a st" using Continue by (rule band_body_Continue)
    have d: "a \<notin> set bs" "distinct bs" using Cons.prems(2) by auto
    show ?thesis
    proof (cases "b = a")
      case True
      have "OneRowlndSR (ctx st') a col = OneRowlndSR (ctx m) a col"
        using band_loop_frame(3) [OF r, of a col] d(1) by simp
      then show ?thesis
        unfolding True m by (simp add: band_SR_def)
    next
      case False
      then have "OneRowlndSR (ctx m) b col = OneRowlndSR (ctx st) b col"
        "lndSR_ScaFct (ctx m) = lndSR_ScaFct (ctx st)"
        unfolding m by simp_all
      with Cons.IH [OF r d(2)] show ?thesis by simp
    qed
  next
    case (Return_FAILURE m)
    with Cons.prems band_body_Return [OF Return_FAILURE] show ?thesis by (simp add: stopped_def)
  next
    case Exit
    with Cons.prems show ?thesis by (simp add: stopped_def)
  qed
qed

lemma band_loop_fill_flag:
  assumes "band_loop X icls col bs st = Continue st'" "b \<in> set bs"
    "sint (OneRowlndSR (ctx st) b col) = SR_fillValue (ctx st)"
  shows "lndSR_flag st < lndSR_flag st'"
  using assms
proof (induction bs arbitrary: st)
  case Nil
  then show ?case by simp
next
  case (Cons a bs)
  show ?case
  proof (cases "band_body X icls col a st")
    case (Continue m)
    with Cons.prems have r: "band_loop X icls col bs m = Continue st'" by simp
    have m: "m = band_state X icls col a st" using Continue by (rule band_body_Continue)
    have mono: "lndSR_flag m \<le> lndSR_flag st'"
      using band_loop_frame(5) [of X icls col bs m st'] r by (simp add: stopped_def)
    have step: "lndSR_flag st \<le> lndSR_flag m"
      unfolding m by simp
    show ?thesis
    proof (cases "b = a")
      case True
      have "lndSR_flag m = lndSR_flag st + 1"
        using Cons.prems(3) unfolding m True by (simp add: band_SR_def uses_ANratio_def)
      with mono show ?thesis by simp
    next
      case False
      with Cons.prems(2) have b: "b \<in> set bs" by simp
      have "sint (OneRowlndSR (ctx m) b col) = SR_fillValue (ctx m)"
        using Cons.prems(3) False unfolding m by simp
      from Cons.IH [OF r b this] step show ?thesis by simp
    qed
  next
    case (Return_FAILURE m)
    with Cons.prems show ?thesis by simp
  next
    case Exit
    with Cons.prems show ?thesis by simp
  qed
qed

lemma n2b_body_ctx [simp]: "ctx (n2b_body sw b st) = ctx st"
  by (simp add: n2b_body_def accumulate_def)

lemma fold_n2b_ctx [simp]: "ctx (fold (n2b_body sw) bs st) = ctx st"
  by (induction bs arbitrary: st) simp_all

lemma lambert_block_ctx [simp]: "a \<noteq> b \<Longrightarrow> ctx (lambert_block c col a b st) = ctx st"
  by (simp add: lambert_block_eq)

lemma broadband_ctx [simp]: "ctx (broadband sw col st) = ctx st"
  by (simp add: broadband_def add_intercept_def Let_def n2b_loop_def zero_broadband_def)

lemma CalculateAlbedo_Returned:
  assumes "CalculateAlbedo X s out row col qa snow = Returned r s' out' qa'"
  shows "s' = s \<or> (\<exists>st. stopped (band_loop X (Clsdata s col) col [0..<nat (nbands s)] (initial_state s out qa)) st
                   \<and> s' = ctx st)"
proof (cases "Clsdata s col = Cls_fillValue s \<or> Clsdata s col > actu_ncls s \<or> Clsdata s col < 0")
  case True
  with assms show ?thesis by (simp add: CalculateAlbedo_invalid)
next
  case False
  show ?thesis
  proof (cases "band_loop X (Clsdata s col) col [0..<nat (nbands s)] (initial_state s out qa)")
    case (Continue st)
    with assms show ?thesis
      by (auto simp add: CalculateAlbedo_valid [OF False] stopped_def split: if_splits)
  next
    case (Return_FAILURE st)
    with assms show ?thesis
      by (auto simp add: CalculateAlbedo_valid [OF False] stopped_def)
  next
    case Exit
    with assms show ?thesis
      by (simp add: CalculateAlbedo_valid [OF False])
  qed
qed

subsection \<open>The 16-bit raster\<close>

lemma sint_int16:
  "- 32768 \<le> k \<Longrightarrow> k < 32768 \<Longrightarrow> sint (word_of_int k :: 16 word) = k"
  by (simp add: sint_sbintrunc' signed_take_bit_int_eq_self)

lemma sint_int16_bounds: "- 32768 \<le> sint (v :: 16 word)" "sint (v :: 16 word) < 32768"
  using sint_ge [of v] sint_lt [of v] by simp_all

lemma sint_clamp_SR:
  assumes "0 < sf"
  shows "sint (clamp_SR sf v) =
     (if sint v < 0 then 0
      else if 1.2 / sf \<le> real_of_int (sint v) then \<lfloor>0.99 / sf\<rfloor>
      else sint v)"
proof (cases "sint v < 0")
  case True
  have "\<not> over_limit sf 0"
    using assms by (simp add: over_limit_def not_le)
  with True show ?thesis by (simp add: clamp_SR_def)
next
  case False
  show ?thesis
  proof (cases "1.2 / sf \<le> real_of_int (sint v)")
    case True
    have q: "0.99 / sf \<le> 1.2 / sf"
      using assms by (intro divide_right_mono) simp_all
    have "0 \<le> 0.99 / sf" using assms by simp
    then have lo: "0 \<le> \<lfloor>0.99 / sf\<rfloor>" by simp
    have "real_of_int \<lfloor>0.99 / sf\<rfloor> \<le> real_of_int (sint v)"
      using True q of_int_floor_le [of "0.99 / sf"] by linarith
    then have "\<lfloor>0.99 / sf\<rfloor> \<le> sint v" by (simp only: of_int_le_iff)
    with sint_int16_bounds(2) [of v] have hi: "\<lfloor>0.99 / sf\<rfloor> < 32768" by linarith
    have w: "sint (word_of_int \<lfloor>0.99 / sf\<rfloor> :: 16 word) = \<lfloor>0.99 / sf\<rfloor>"
    proof (rule sint_int16)
      show "- 32768 \<le> \<lfloor>0.99 / sf\<rfloor>" using lo by linarith
      show "\<lfloor>0.99 / sf\<rfloor> < 32768" by (rule hi)
    qed
    have "int16_of_double (0.99 / sf) = word_of_int \<lfloor>0.99 / sf\<rfloor>"
      using assms by (simp add: int16_of_double_def trunc_double_def)
    then have "sint (int16_of_double (0.99 / sf)) = \<lfloor>0.99 / sf\<rfloor>"
      using w by (simp only:)
    with True False assms show ?thesis
      by (simp add: clamp_SR_def over_limit_def)
  next
    case F: False
    with False assms show ?thesis
      by (simp add: clamp_SR_def over_limit_def)
  qed
qed

subsection \<open>The two branches of an iteration\<close>

lemma band_state_aniso:
  assumes "uses_ANratio X (ctx st) icls b (OneRowlndSR (ctx st) b col)"
    and "band_ratio X (ctx st) icls b = Some (wsa, bsa)"
    and "c = clamp_SR (lndSR_ScaFct (ctx st)) (OneRowlndSR (ctx st) b col)"
    and "sf = lndSR_ScaFct (ctx st)"
  shows "OneRowlndSR (ctx (band_state X icls col b st)) b col = c"
    and "tmpQA (band_state X icls col b st) 4 = tmpQA st 4"
    and "(lndPixAlbedo (band_state X icls col b st) (b * 2) = sf * real_of_int (sint c) * bsa
          \<and> lndPixAlbedo (band_state X icls col b st) (b * 2 + 1) = sf * real_of_int (sint c) * wsa
          \<and> tmpQA (band_state X icls col b st) 3 = tmpQA st 3)
       \<or> (lndPixAlbedo (band_state X icls col b st) (b * 2) = sf * real_of_int (sint c)
          \<and> lndPixAlbedo (band_state X icls col b st) (b * 2 + 1) = sf * real_of_int (sint c)
          \<and> tmpQA (band_state X icls col b st) 3 = tmpQA st 3 + 1)"
proof -
  have nf: "sint (OneRowlndSR (ctx st) b col) \<noteq> SR_fillValue (ctx st)"
    using assms(1) by (simp add: uses_ANratio_def)
  show "OneRowlndSR (ctx (band_state X icls col b st)) b col = c"
    using assms by (simp add: band_SR_def)
  show "tmpQA (band_state X icls col b st) 4 = tmpQA st 4"
    using assms by (simp add: band_incr_def)
  show "(lndPixAlbedo (band_state X icls col b st) (b * 2) = sf * real_of_int (sint c) * bsa
          \<and> lndPixAlbedo (band_state X icls col b st) (b * 2 + 1) = sf * real_of_int (sint c) * wsa
          \<and> tmpQA (band_state X icls col b st) 3 = tmpQA st 3)
       \<or> (lndPixAlbedo (band_state X icls col b st) (b * 2) = sf * real_of_int (sint c)
          \<and> lndPixAlbedo (band_state X icls col b st) (b * 2 + 1) = sf * real_of_int (sint c)
          \<and> tmpQA (band_state X icls col b st) 3 = tmpQA st 3 + 1)"
    using assms nf
    by (cases "band_negative X (ctx st) icls b (OneRowlndSR (ctx st) b col)")
       (simp_all add: band_albedo_def band_SR_def band_factors_def band_incr_def)
qed

lemma band_state_iso:
  assumes "\<not> uses_ANratio X (ctx st) icls b (OneRowlndSR (ctx st) b col)"
    and "sint (OneRowlndSR (ctx st) b col) \<noteq> SR_fillValue (ctx st)"
  shows "ctx (band_state X icls col b st) = ctx st"
    and "tmpQA (band_state X icls col b st) 4 = tmpQA st 4 + 1"
    and "lndPixAlbedo (band_state X icls col b st) (b * 2)
          = lndSR_ScaFct (ctx st) * real_of_int (sint (OneRowlndSR (ctx st) b col))"
    and "lndPixAlbedo (band_state X icls col b st) (b * 2 + 1)
          = lndSR_ScaFct (ctx st) * real_of_int (sint (OneRowlndSR (ctx st) b col))"
  using assms
  by (simp_all add: band_SR_def put_SR_same band_incr_def band_albedo_def band_factors_def)

lemma mixed_call:
  "CalculateAlbedo example_extern mixed_sensor example_out 0 0 7 0
     = Returned SUCCESS mixed_sensor mixed_out 0"
proof -
  define st where "st = loop_state example_extern mixed_sensor (Clsdata mixed_sensor 0) 0
     [0..<nat (nbands mixed_sensor)] (initial_state mixed_sensor example_out 7)"
  define st' where "st' = broadband (TM_coefficents_sw (instrument mixed_sensor) 0) 0 (assign_QA st)"
  have c: "ctx st = mixed_sensor"
    by (simp add: st_def mixed_sensor_def upt_6 band_eval TMBandIndx_def fun_eq_iff)
  have a: "lndPixAlbedo st = example_out(0 := 3, 1 := 2, 2 := - (1 / 2000), 3 := - (1 / 2000),
     4 := 3 / 10, 5 := 1 / 5, 6 := 3 / 10, 7 := 1 / 5, 8 := 3 / 10, 9 := 1 / 5,
     10 := 3 / 10, 11 := 1 / 5)"
    by (simp add: st_def mixed_sensor_def upt_6 band_eval TMBandIndx_def)
  have f: "lndSR_flag st = 0"
    by (simp add: st_def mixed_sensor_def upt_6 band_eval TMBandIndx_def)
  have t: "tmpQA st 0 = 6"
    by (simp add: st_def mixed_sensor_def upt_6 band_eval TMBandIndx_def)
  have q: "QA (assign_QA st) = 0"
    by (simp add: assign_QA_def t c mixed_sensor_def)
  have n: "nbands (ctx (assign_QA st)) \<le> 6"
    by (simp add: c mixed_sensor_def)
  have a': "lndPixAlbedo st' = mixed_out"
    unfolding st'_def broadband_eq [OF n]
    by (simp add: a c mixed_sensor_def mixed_out_def upt_6 broadband_eval)
  have q': "QA st' = 0"
    unfolding st'_def broadband_eq [OF n]
    by (simp add: a c q mixed_sensor_def upt_6 broadband_eval)
  have c': "ctx st' = mixed_sensor"
    unfolding st'_def by (simp add: c)
  have "CalculateAlbedo example_extern mixed_sensor example_out 0 0 7 0 =
     (if lndSR_flag st \<noteq> 0 then Returned FAILURE (ctx st) (lndPixAlbedo st) (- 1)
      else Returned SUCCESS (ctx st') (lndPixAlbedo st') (QA st'))"
    by (rule CalculateAlbedo_closed [OF _ _ _ st_def st'_def])
       (simp_all add: mixed_sensor_def raster_independent_stable band_eval TMBandIndx_def)
  then show ?thesis
    by (simp add: f c' a' q')
qed

lemma ceiling_minus_fifth [simp]: "\<lceil>- (1 / 5) :: real\<rceil> = 0"
  by (simp add: ceiling_def)

lemma odd_band_0:
  "band_body example_extern 1 0 0 (initial_state odd_sensor example_out 7)
     = Continue \<lparr>ctx = odd_sensor, lndPixAlbedo = example_out(0 := 1 / 10, 1 := 1 / 10), QA = 7,
                 tmpQA = (\<lambda>k. if k = 0 \<or> k = 4 then 1 else 0), lndSR_flag = 0\<rparr>"
  by (simp add: band_body_eq band_state_def Let_def odd_sensor_def band_eval TMBandIndx_def
        put_SR_same fun_eq_iff)

lemma odd_band_1:
  "band_body example_extern 1 0 1 (initial_state odd_sensor example_out 7)
     = Continue \<lparr>ctx = odd_sensor, lndPixAlbedo = example_out(2 := 1 / 10, 3 := 1 / 10), QA = 7,
                 tmpQA = (\<lambda>k. if k = 0 \<or> k = 4 then 1 else 0), lndSR_flag = 0\<rparr>"
  by (simp add: band_body_eq band_state_def Let_def odd_sensor_def band_eval TMBandIndx_def
        put_SR_same fun_eq_iff)

subsection \<open>Running the band loop again\<close>

lemma sint_limit:
  assumes "0 < sf" "1.2 / sf \<le> real_of_int (sint (u :: 16 word))"
  shows "sint (int16_of_double (0.99 / sf)) = \<lfloor>0.99 / sf\<rfloor>"
proof -
  have q: "0.99 / sf \<le> 1.2 / sf"
    using assms(1) by (intro divide_right_mono) simp_all
  have "0 \<le> 0.99 / sf" using assms(1) by simp
  then have lo: "0 \<le> \<lfloor>0.99 / sf\<rfloor>" by simp
  have "real_of_int \<lfloor>0.99 / sf\<rfloor> \<le> real_of_int (sint u)"
    using assms(2) q of_int_floor_le [of "0.99 / sf"] by linarith
  then have "\<lfloor>0.99 / sf\<rfloor> \<le> sint u" by (simp only: of_int_le_iff)
  with sint_int16_bounds(2) [of u] have hi: "\<lfloor>0.99 / sf\<rfloor> < 32768" by linarith
  have w: "sint (word_of_int \<lfloor>0.99 / sf\<rfloor> :: 16 word) = \<lfloor>0.99 / sf\<rfloor>"
  proof (rule sint_int16)
    show "- 32768 \<le> \<lfloor>0.99 / sf\<rfloor>" using lo by linarith
    show "\<lfloor>0.99 / sf\<rfloor> < 32768" by (rule hi)
  qed
  have "int16_of_double (0.99 / sf) = word_of_int \<lfloor>0.99 / sf\<rfloor>"
    using assms(1) by (simp add: int16_of_double_def trunc_double_def)
  then show ?thesis
    using w by (simp only:)
qed

lemma clamp_SR_nonneg_input:
  "0 \<le> sint v \<Longrightarrow> clamp_SR sf v = (if over_limit sf v then int16_of_double (0.99 / sf) else v)"
  by (simp add: clamp_SR_def)

lemma clamp_SR_idem: "clamp_SR sf (clamp_SR sf v) = clamp_SR sf v"
proof -
  define v1 where "v1 = (if sint v < 0 then 0 else v)"
  have v1: "0 \<le> sint v1" by (simp add: v1_def)
  have c: "clamp_SR sf v = (if over_limit sf v1 then int16_of_double (0.99 / sf) else v1)"
    by (simp add: clamp_SR_def v1_def)
  show ?thesis
  proof (cases "over_limit sf v1")
    case False
    then show ?thesis
      unfolding c using v1 by (simp add: clamp_SR_nonneg_input)
  next
    case True
    let ?T = "int16_of_double (0.99 / sf)"
    have sf: "sf \<noteq> 0" and lim: "1.2 / sf \<le> real_of_int (sint v1)"
      using True unfolding over_limit_def by blast+
    show ?thesis
    proof (cases "0 < sf")
      case pos: True
      have t: "sint ?T = \<lfloor>0.99 / sf\<rfloor>"
        using pos lim by (rule sint_limit)
      have "0 \<le> 0.99 / sf" using pos by simp
      then have t0: "0 \<le> sint ?T" unfolding t by simp
      have "0.99 / sf < 1.2 / sf"
        using pos by (intro divide_strict_right_mono) simp_all
      then have "real_of_int \<lfloor>0.99 / sf\<rfloor> < 1.2 / sf"
        using of_int_floor_le [of "0.99 / sf"] by linarith
      then have "\<not> over_limit sf ?T"
        unfolding over_limit_def t by linarith
      then show ?thesis
        unfolding c using True t0 by (simp add: clamp_SR_nonneg_input)
    next
      case False
      with sf have neg: "sf < 0" by simp
      define T1 where "T1 = (if sint ?T < 0 then 0 else ?T)"
      have T1: "0 \<le> sint T1" by (simp add: T1_def)
      have "1.2 / sf < 0" using neg by (simp add: divide_neg_pos divide_pos_neg)
      moreover have "0 \<le> real_of_int (sint T1)"
        using T1 by (simp only: of_int_0_le_iff)
      ultimately have "1.2 / sf \<le> real_of_int (sint T1)"
        by linarith
      then have o: "over_limit sf T1" using sf by (simp only: over_limit_def) simp
      have "clamp_SR sf ?T = (if over_limit sf T1 then ?T else T1)"
        by (simp only: clamp_SR_def T1_def Let_def)
      then have "clamp_SR sf ?T = ?T"
        using o by (simp only: if_True)
      then show ?thesis
        unfolding c using True by simp
    qed
  qed
qed

lemma band_SR_idem: "band_SR X s icls b (band_SR X s icls b v) = band_SR X s icls b v"
  by (simp add: band_SR_def clamp_SR_idem)

lemma uses_ANratio_SR:
  "uses_ANratio X s icls b (band_SR X s icls b v) \<Longrightarrow> uses_ANratio X s icls b v"
  by (cases "uses_ANratio X s icls b v") (simp_all add: band_SR_def)

lemma uses_ANratio_SR_iff:
  "sint (band_SR X s icls b v) \<noteq> SR_fillValue s \<Longrightarrow>
   uses_ANratio X s icls b (band_SR X s icls b v) = uses_ANratio X s icls b v"
  by (auto simp add: uses_ANratio_def band_SR_def)

lemma band_rerun:
  assumes "sint (band_SR X s icls b v) \<noteq> SR_fillValue s"
  shows "band_negative X s icls b (band_SR X s icls b v) = band_negative X s icls b v"
    and "band_factors X s icls b (band_SR X s icls b v) = band_factors X s icls b v"
    and "band_incr X s icls b (band_SR X s icls b v) = band_incr X s icls b v"
proof -
  note u = uses_ANratio_SR_iff [OF assms]
  have c: "uses_ANratio X s icls b v \<Longrightarrow>
     clamp_SR (lndSR_ScaFct s) (band_SR X s icls b v) = clamp_SR (lndSR_ScaFct s) v"
    by (simp add: band_SR_def clamp_SR_idem)
  show n: "band_negative X s icls b (band_SR X s icls b v) = band_negative X s icls b v"
    using c by (auto simp add: band_negative_def u split: option.splits)
  show "band_factors X s icls b (band_SR X s icls b v) = band_factors X s icls b v"
    by (simp add: band_factors_def u n)
  have nf: "\<not> uses_ANratio X s icls b v \<Longrightarrow> band_SR X s icls b v = v"
    by (simp add: band_SR_def)
  have nfv: "sint v \<noteq> SR_fillValue s"
    using assms by (auto simp add: band_SR_def uses_ANratio_def)
  show "band_incr X s icls b (band_SR X s icls b v) = band_incr X s icls b v"
    using assms nf nfv by (auto simp add: band_incr_def fun_eq_iff u n band_SR_idem)
qed

lemma band_albedo_rerun:
  assumes "A (b * 2) = band_albedo X s icls b v A0 (b * 2)"
    and "A (b * 2 + 1) = band_albedo X s icls b v A0 (b * 2 + 1)"
  shows "band_albedo X s icls b (band_SR X s icls b v) A = A"
proof (cases "sint (band_SR X s icls b v) = SR_fillValue s")
  case True
  then show ?thesis by (simp add: band_albedo_def)
next
  case False
  then have nf: "sint v \<noteq> SR_fillValue s"
    by (auto simp add: band_SR_def uses_ANratio_def)
  show ?thesis
    using assms False nf
    by (simp add: band_albedo_def band_rerun(2) [OF False] band_SR_idem fun_eq_iff)
qed

lemma closest_stable_cong:
  assumes "only_raster s s'" "closest_stable X s icls b"
  shows "closest_stable X s' icls b"
proof -
  obtain r' where s': "s' = s\<lparr>OneRowlndSR := r'\<rparr>"
    using assms(1) unfolding only_raster_def by blast
  have u: "s'\<lparr>OneRowlndSR := r\<rparr> = s\<lparr>OneRowlndSR := r\<rparr>" for r
    by (simp add: s')
  show ?thesis
    using assms(2) unfolding closest_stable_def BRDFava_flg_cong [OF assms(1)] u
    by (auto simp add: s')
qed

lemma fold_band_albedo_other:
  "\<forall>c\<in>set bs. i \<noteq> c * 2 \<and> i \<noteq> c * 2 + 1 \<Longrightarrow>
   fold (\<lambda>b. band_albedo X s icls b (v b)) bs A i = A i"
  by (induction bs arbitrary: A) (simp_all add: band_albedo_other)

lemma band_albedo_own:
  "A i = A' i \<Longrightarrow> band_albedo X s icls b v A i = band_albedo X s icls b v A' i"
  by (simp add: band_albedo_def)

lemma fold_band_albedo_at:
  assumes "distinct bs" "b \<in> set bs" "i = b * 2 \<or> i = b * 2 + 1"
  shows "fold (\<lambda>b. band_albedo X s icls b (v b)) bs A i = band_albedo X s icls b (v b) A i"
  using assms(1,2)
proof (induction bs arbitrary: A)
  case Nil
  then show ?case by simp
next
  case (Cons a bs)
  show ?case
  proof (cases "b = a")
    case True
    have "\<forall>c\<in>set bs. i \<noteq> c * 2 \<and> i \<noteq> c * 2 + 1"
      using Cons.prems(1) assms(3) True by (auto; presburger)
    then show ?thesis
      by (simp add: fold_band_albedo_other True)
  next
    case False
    with Cons.prems have b: "b \<in> set bs" "distinct bs" by auto
    have "i \<noteq> a * 2" "i \<noteq> a * 2 + 1"
      using False assms(3) by presburger+
    then have "band_albedo X s icls a (v a) A i = A i"
      by (rule band_albedo_other)
    then have "band_albedo X s icls b (v b) (band_albedo X s icls a (v a) A) i
        = band_albedo X s icls b (v b) A i"
      by (rule band_albedo_own)
    with Cons.IH [OF b(2,1)] show ?thesis by simp
  qed
qed

lemma fold_fix: "\<forall>b\<in>set bs. f b A = A \<Longrightarrow> fold f bs A = A"
  by (induction bs) simp_all

lemma loop_state_rerun:
  assumes stable: "\<forall>b\<in>set bs. closest_stable X s icls b"
    and d: "distinct bs"
    and s: "ctx st = s"
    and s': "s' = ctx (loop_state X s icls col bs st)"
    and A: "\<forall>b\<in>set bs. lndPixAlbedo u (b * 2) = lndPixAlbedo (loop_state X s icls col bs st) (b * 2)
            \<and> lndPixAlbedo u (b * 2 + 1) = lndPixAlbedo (loop_state X s icls col bs st) (b * 2 + 1)"
    and u: "ctx u = s'"
  shows "ctx (loop_state X s' icls col bs u) = s'"
    and "lndPixAlbedo (loop_state X s' icls col bs u) = lndPixAlbedo u"
    and "lndSR_flag (loop_state X s' icls col bs u) - lndSR_flag u
          = lndSR_flag (loop_state X s icls col bs st) - lndSR_flag st"
    and "lndSR_flag (loop_state X s icls col bs st) = lndSR_flag st \<Longrightarrow>
         tmpQA (loop_state X s' icls col bs u) k - tmpQA u k
          = tmpQA (loop_state X s icls col bs st) k - tmpQA st k"
proof -
  let ?v = "\<lambda>b. OneRowlndSR s b col"
  let ?v' = "\<lambda>b. band_SR X s icls b (?v b)"
  have or: "only_raster s s'"
    unfolding s' by (simp add: s only_raster_def)
  have cell: "OneRowlndSR s' b col = ?v' b" if "b \<in> set bs" for b
    using that unfolding s' by (simp add: s)
  have fill: "SR_fillValue s' = SR_fillValue s"
    using only_raster_fields(4) [OF or] .
  note c = band_cong [OF or]
  show "ctx (loop_state X s' icls col bs u) = s'"
  proof -
    have "(\<lambda>b c. if b \<in> set bs \<and> c = col then band_SR X s' icls b (OneRowlndSR s' b col)
                 else OneRowlndSR s' b c) = OneRowlndSR s'"
      using stable by (auto simp add: fun_eq_iff c(4) cell band_SR_idem)
    then show ?thesis
      unfolding loop_state_sel u by simp
  qed
  show "lndPixAlbedo (loop_state X s' icls col bs u) = lndPixAlbedo u"
  proof -
    have "fold (\<lambda>b. band_albedo X s' icls b (OneRowlndSR s' b col)) bs (lndPixAlbedo u)
        = fold (\<lambda>b. band_albedo X s icls b (?v' b)) bs (lndPixAlbedo u)"
      using stable by (intro fold_cong refl) (simp add: c(7) cell)
    also have "\<dots> = lndPixAlbedo u"
    proof (rule fold_fix, rule ballI)
      fix b assume b: "b \<in> set bs"
      have 1: "lndPixAlbedo u (b * 2) = band_albedo X s icls b (?v b) (lndPixAlbedo st) (b * 2)"
        using A b fold_band_albedo_at [OF d b, of "b * 2" X s icls ?v "lndPixAlbedo st"] by simp
      have 2: "lndPixAlbedo u (b * 2 + 1) = band_albedo X s icls b (?v b) (lndPixAlbedo st) (b * 2 + 1)"
        using A b fold_band_albedo_at [OF d b, of "b * 2 + 1" X s icls ?v "lndPixAlbedo st"] by simp
      show "band_albedo X s icls b (?v' b) (lndPixAlbedo u) = lndPixAlbedo u"
        using 1 2 by (rule band_albedo_rerun)
    qed
    finally show ?thesis by simp
  qed
  have flag_eq: "(\<Sum>b\<leftarrow>bs. of_bool (sint (band_SR X s' icls b (OneRowlndSR s' b col)) = SR_fillValue s') :: int)
      = (\<Sum>b\<leftarrow>bs. of_bool (sint (?v' b) = SR_fillValue s))"
    using stable by (intro arg_cong [where f = sum_list] map_cong refl) (simp add: c(4) cell band_SR_idem fill)
  show "lndSR_flag (loop_state X s' icls col bs u) - lndSR_flag u
          = lndSR_flag (loop_state X s icls col bs st) - lndSR_flag st"
    by (simp add: flag_eq)
  assume "lndSR_flag (loop_state X s icls col bs st) = lndSR_flag st"
  then have z: "(\<Sum>b\<leftarrow>bs. of_bool (sint (?v' b) = SR_fillValue s) :: int) = 0"
    by simp
  have nofill: "sint (?v' b) \<noteq> SR_fillValue s" if "b \<in> set bs" for b
  proof
    assume "sint (?v' b) = SR_fillValue s"
    then have "(of_bool (sint (?v' b) = SR_fillValue s) :: int) = 1" by simp
    moreover have "(of_bool (sint (?v' b) = SR_fillValue s) :: int)
       \<le> (\<Sum>b\<leftarrow>bs. of_bool (sint (?v' b) = SR_fillValue s))"
      using that by (intro member_le_sum_list) auto
    ultimately show False using z by simp
  qed
  have "(\<Sum>b\<leftarrow>bs. band_incr X s' icls b (OneRowlndSR s' b col) k)
      = (\<Sum>b\<leftarrow>bs. band_incr X s icls b (?v b) k)"
    using stable by (intro arg_cong [where f = sum_list] map_cong refl)
      (simp add: c(8) cell band_rerun(3) [OF nofill])
  then show "tmpQA (loop_state X s' icls col bs u) k - tmpQA u k
          = tmpQA (loop_state X s icls col bs st) k - tmpQA st k"
    by simp
qed

lemma first_match_idem: "first_match rules (first_match rules q) = first_match rules q"
  by (simp add: first_match_def split: option.splits)

lemma no_stop_rerun:
  assumes "closest_stable X s icls b" "only_raster s s'"
    and "OneRowlndSR s' b col = band_SR X s icls b (OneRowlndSR s b col)"
    and "\<not> band_stops X s icls col b"
  shows "\<not> band_stops X s' icls col b"
proof -
  note c = band_cong [OF assms(2,1)] band_class_cong [OF assms(2,1)]
  have "uses_ANratio X s icls b (band_SR X s icls b (OneRowlndSR s b col)) \<Longrightarrow>
     band_ratio X s icls b \<noteq> None"
    using assms(4) uses_ANratio_SR [of X s icls b "OneRowlndSR s b col"]
    by (auto simp add: band_stops_def)
  with assms(4) show ?thesis
    by (auto simp add: band_stops_def c assms(3))
qed

lemma band_loop_rerun:
  assumes stable: "\<forall>b<m. closest_stable X s icls b"
    and s: "ctx st = s"
    and ns: "\<forall>b<m. \<not> band_stops X s icls col b"
    and s': "s' = ctx (loop_state X s icls col [0..<m] st)"
    and A: "\<forall>b<m. lndPixAlbedo u (b * 2) = lndPixAlbedo (loop_state X s icls col [0..<m] st) (b * 2)
            \<and> lndPixAlbedo u (b * 2 + 1) = lndPixAlbedo (loop_state X s icls col [0..<m] st) (b * 2 + 1)"
    and u: "ctx u = s'"
  shows "band_loop X icls col [0..<m] u = Continue (loop_state X s' icls col [0..<m] u)"
    and "only_raster s s'"
    and "\<forall>b<m. closest_stable X s' icls b"
proof -
  show or: "only_raster s s'"
    unfolding s' by (simp add: s only_raster_def)
  show st': "\<forall>b<m. closest_stable X s' icls b"
    using stable closest_stable_cong [OF or] by blast
  have cell: "OneRowlndSR s' b col = band_SR X s icls b (OneRowlndSR s b col)" if "b < m" for b
    using that unfolding s' by (simp add: s)
  have ns': "\<forall>b<m. \<not> band_stops X s' icls col b"
    using no_stop_rerun [OF _ or cell] stable ns by blast
  show "band_loop X icls col [0..<m] u = Continue (loop_state X s' icls col [0..<m] u)"
    using st' ns' by (intro band_loop_closed) (simp_all add: u)
qed

lemma band_loop_stop:
  assumes s: "ctx st = s"
    and stable: "\<forall>b\<le>k. closest_stable X s icls b"
    and k: "k < n"
    and ns: "\<forall>b<k. \<not> band_stops X s icls col b"
    and stop: "band_stops X s icls col k"
  shows "band_loop X icls col [0..<n] st =
     (if band_fails X s icls k then Return_FAILURE (loop_state X s icls col [0..<k] st) else Exit)"
proof -
  let ?m = "loop_state X s icls col [0..<k] st"
  have pre: "band_loop X icls col [0..<k] st = Continue ?m"
    using stable ns by (intro band_loop_closed) (simp_all add: s)
  have or: "only_raster s (ctx ?m)"
    by (simp add: s only_raster_def)
  have sk: "closest_stable X s icls k" using stable by simp
  have cell: "OneRowlndSR (ctx ?m) k col = OneRowlndSR s k col"
    by (simp add: s)
  note c = band_cong [OF or sk] band_class_cong [OF or sk]
  have split: "[0..<n] = [0..<k] @ k # [Suc k..<n]"
    using upt_add_eq_append [of 0 k "n - k"] k upt_conv_Cons [of k n] by simp
  have bb: "band_body X icls col k ?m =
     (if band_fails X s icls k then Return_FAILURE ?m
      else if uses_ANratio X s icls k (OneRowlndSR s k col) \<and> band_ratio X s icls k = None then Exit
      else Continue (band_state X icls col k ?m))"
    by (simp only: band_body_eq c cell)
  show ?thesis
    using stop unfolding split band_loop_append pre
    by (auto simp add: bb band_stops_def)
qed

subsection \<open>Running the broadband conversion again\<close>

lemma bb_sum_cong:
  assumes "nbands s \<le> 6" "\<forall>i<12. A i = A' i" "k < 2"
  shows "bb_sum c s A k = bb_sum c s A' k"
proof -
  have "n2b_sum c A k [0..<nat (nbands s)] = n2b_sum c A' k [0..<nat (nbands s)]"
    using assms by (intro n2b_sum_cong) auto
  then show ?thesis by (simp add: bb_sum_def)
qed

lemma bb_cong:
  assumes "nbands s \<le> 6" "\<forall>i<12. A i = A' i"
  shows "bb_rescue c s A = bb_rescue c s A'"
    and "k < 2 \<Longrightarrow> bb_value c s col A k = bb_value c s col A' k"
    and "any_rescue sw s A = any_rescue sw s A'"
proof -
  show r: "bb_rescue c s A = bb_rescue c s A'" for c
    using bb_sum_cong [OF assms, of 0 c] bb_sum_cong [OF assms, of 1 c]
    by (simp add: bb_rescue_def)
  show "k < 2 \<Longrightarrow> bb_value c s col A k = bb_value c s col A' k"
    using bb_sum_cong [OF assms, of k c] by (simp add: bb_value_def r)
  show "any_rescue sw s A = any_rescue sw s A'"
    by (simp add: any_rescue_def r)
qed

lemma broadband_sel:
  assumes "nbands (ctx st) \<le> 6"
  shows "lndPixAlbedo (broadband sw col st) = (lndPixAlbedo st)
         (12 := bb_value sw (ctx st) col (lndPixAlbedo st) 0,
          13 := bb_value sw (ctx st) col (lndPixAlbedo st) 1,
          14 := bb_value TM_coefficents_vis (ctx st) col (lndPixAlbedo st) 0,
          15 := bb_value TM_coefficents_vis (ctx st) col (lndPixAlbedo st) 1,
          16 := bb_value TM_coefficents_nir (ctx st) col (lndPixAlbedo st) 0,
          17 := bb_value TM_coefficents_nir (ctx st) col (lndPixAlbedo st) 1)"
    and "QA (broadband sw col st) = (if any_rescue sw (ctx st) (lndPixAlbedo st) then 4 else QA st)"
  by (simp_all add: broadband_eq [OF assms] any_rescue_def)

lemma broadband_rerun:
  assumes n: "nbands (ctx st) \<le> 6"
    and c: "ctx u = ctx st"
    and a: "lndPixAlbedo u = lndPixAlbedo (broadband sw col st)"
  shows "lndPixAlbedo (broadband sw col u) = lndPixAlbedo u"
    and "QA (broadband sw col u) = (if any_rescue sw (ctx st) (lndPixAlbedo st) then 4 else QA u)"
proof -
  have n': "nbands (ctx u) \<le> 6" using n c by simp
  have agree: "\<forall>i<12. lndPixAlbedo u i = lndPixAlbedo st i"
    unfolding a broadband_sel(1) [OF n] by simp
  note cg = bb_cong [OF n agree]
  have v: "bb_value k s col' (lndPixAlbedo u) 0 = bb_value k s col' (lndPixAlbedo st) 0"
    "bb_value k s col' (lndPixAlbedo u) 1 = bb_value k s col' (lndPixAlbedo st) 1"
    if "s = ctx st" for k s col'
    using bb_cong(2) [OF n agree, of 0 k col'] bb_cong(2) [OF n agree, of 1 k col'] that by simp_all
  show "lndPixAlbedo (broadband sw col u) = lndPixAlbedo u"
    unfolding broadband_sel(1) [OF n'] c v [OF refl]
    unfolding a broadband_sel(1) [OF n]
    by (simp add: fun_eq_iff)
  show "QA (broadband sw col u) = (if any_rescue sw (ctx st) (lndPixAlbedo st) then 4 else QA u)"
    unfolding broadband_sel(2) [OF n'] c cg(3) ..
qed


subsection \<open>Sign of the narrow-band albedo\<close>

lemma QA_assign_QA:
  "QA (assign_QA st) = first_match (QA_rules (tmpQA st) (nbands (ctx st))) (QA st)"
  by (simp add: assign_QA_first_match)

lemma sum_list_const_on:
  "\<forall>x\<in>set xs. f x = (c :: int) \<Longrightarrow> (\<Sum>x\<leftarrow>xs. f x) = int (length xs) * c"
  by (induction xs) (simp_all add: algebra_simps)

lemma sint_clamp_SR_nonneg: "0 < sf \<Longrightarrow> 0 \<le> sint (clamp_SR sf v)"
proof -
  assume sf: "0 < sf"
  then have "0 \<le> 0.99 / sf" by simp
  then have "0 \<le> \<lfloor>0.99 / sf\<rfloor>" by simp
  then show ?thesis
    unfolding sint_clamp_SR [OF sf] by (simp del: zero_le_floor)
qed

lemma band_albedo_nonneg:
  assumes "uses_ANratio X s icls b v" "0 < lndSR_ScaFct s" "i = b * 2 \<or> i = b * 2 + 1"
  shows "0 \<le> band_albedo X s icls b v A i"
proof -
  let ?sf = "lndSR_ScaFct s"
  let ?c = "clamp_SR ?sf v"
  have nf: "sint v \<noteq> SR_fillValue s" using assms(1) by (simp add: uses_ANratio_def)
  have "0 \<le> real_of_int (sint ?c)"
    using sint_clamp_SR_nonneg [OF assms(2), of v] by (simp only: of_int_0_le_iff)
  then have c: "0 \<le> ?sf * real_of_int (sint ?c)"
    using assms(2) by (intro mult_nonneg_nonneg) (simp_all only: less_imp_le)
  have sr: "band_SR X s icls b v = ?c" using assms(1) by (simp add: band_SR_def)
  show ?thesis
  proof (cases "band_negative X s icls b v")
    case True
    then have "band_factors X s icls b v = (1, 1)" by (simp add: band_factors_def)
    with c nf assms(3) show ?thesis
      by (auto simp add: band_albedo_def sr)
  next
    case False
    show ?thesis
    proof (cases "band_ratio X s icls b")
      case None
      then have "band_factors X s icls b v = (1, 1)" by (simp add: band_factors_def)
      with c nf assms(3) show ?thesis
        by (auto simp add: band_albedo_def sr)
    next
      case (Some p)
      obtain w k where p: "p = (w, k)" by (cases p)
      have f: "band_factors X s icls b v = (k, w)"
        using False assms(1) Some p by (simp add: band_factors_def)
      have "\<not> negative_albedo ?sf ?c k w"
        using False assms(1) Some p by (simp add: band_negative_def)
      then have "0 \<le> ?sf * real_of_int (sint ?c) * k" "0 \<le> ?sf * real_of_int (sint ?c) * w"
        by (simp_all add: negative_albedo_def not_less)
      with nf assms(3) show ?thesis
        by (auto simp add: band_albedo_def sr f)
    qed
  qed
qed


subsection \<open>Calls on the sample inputs\<close>

lemma example_call:
  "CalculateAlbedo example_extern example_sensor example_out 0 0 7 0
     = Returned SUCCESS example_sensor example_result 0"
proof -
  define st where "st = loop_state example_extern example_sensor (Clsdata example_sensor 0) 0
     [0..<nat (nbands example_sensor)] (initial_state example_sensor example_out 7)"
  define st' where "st' = broadband (TM_coefficents_sw (instrument example_sensor) 0) 0 (assign_QA st)"
  have c: "ctx st = example_sensor"
    by (simp add: st_def upt_6 band_eval fun_eq_iff example_sensor_def)
  have a: "lndPixAlbedo st = example_out(0 := 3 / 10, 1 := 1 / 5, 2 := 3 / 10, 3 := 1 / 5,
     4 := 3 / 10, 5 := 1 / 5, 6 := 3 / 10, 7 := 1 / 5, 8 := 3 / 10, 9 := 1 / 5,
     10 := 3 / 10, 11 := 1 / 5)"
    by (simp add: st_def upt_6 band_eval)
  have f: "lndSR_flag st = 0"
    by (simp add: st_def upt_6 band_eval)
  have t: "tmpQA st 0 = 6"
    by (simp add: st_def upt_6 band_eval)
  have q: "QA (assign_QA st) = 0"
    by (simp add: assign_QA_def t c)
  have n: "nbands (ctx (assign_QA st)) \<le> 6"
    by (simp add: c)
  have a': "lndPixAlbedo st' = example_result"
    unfolding st'_def broadband_eq [OF n]
    by (simp add: a c example_result_def upt_6 broadband_eval)
  have q': "QA st' = 0"
    unfolding st'_def broadband_eq [OF n]
    by (simp add: a c q upt_6 broadband_eval)
  have c': "ctx st' = example_sensor"
    unfolding st'_def by (simp add: c)
  have "CalculateAlbedo example_extern example_sensor example_out 0 0 7 0 =
     (if lndSR_flag st \<noteq> 0 then Returned FAILURE (ctx st) (lndPixAlbedo st) (- 1)
      else Returned SUCCESS (ctx st') (lndPixAlbedo st') (QA st'))"
    by (rule CalculateAlbedo_closed [OF _ _ _ st_def st'_def])
       (simp_all add: raster_independent_stable band_eval)
  then show ?thesis
    by (simp add: f c' a' q')
qed

lemma negative_call:
  "CalculateAlbedo example_extern negative_sensor example_out 0 0 7 0
     = Returned SUCCESS negative_after negative_out 4"
proof -
  define st where "st = loop_state example_extern negative_sensor (Clsdata negative_sensor 0) 0
     [0..<nat (nbands negative_sensor)] (initial_state negative_sensor example_out 7)"
  define st' where "st' = broadband (TM_coefficents_sw (instrument negative_sensor) 0) 0 (assign_QA st)"
  have c: "ctx st = negative_after"
    by (simp add: st_def negative_sensor_def negative_after_def upt_6 band_eval fun_eq_iff)
  have a: "lndPixAlbedo st = example_out(0 := 0, 1 := 0, 2 := 0, 3 := 0, 4 := 0, 5 := 0, 6 := 0, 7 := 0, 8 := 0,
            9 := 0, 10 := 0, 11 := 0)"
    by (simp add: st_def negative_sensor_def upt_6 band_eval)
  have f: "lndSR_flag st = 0"
    by (simp add: st_def negative_sensor_def upt_6 band_eval)
  have n: "nbands (ctx (assign_QA st)) \<le> 6"
    by (simp add: c negative_sensor_def negative_after_def)
  have a': "lndPixAlbedo st' = negative_out"
    unfolding st'_def broadband_eq [OF n]
    by (simp add: a c negative_sensor_def negative_after_def negative_out_def upt_6 broadband_eval)
  have q': "QA st' = 4"
    unfolding st'_def broadband_eq [OF n]
    by (simp add: a c negative_sensor_def negative_after_def upt_6 broadband_eval)
  have c': "ctx st' = negative_after"
    unfolding st'_def by (simp add: c)
  have "CalculateAlbedo example_extern negative_sensor example_out 0 0 7 0 =
     (if lndSR_flag st \<noteq> 0 then Returned FAILURE (ctx st) (lndPixAlbedo st) (- 1)
      else Returned SUCCESS (ctx st') (lndPixAlbedo st') (QA st'))"
    by (rule CalculateAlbedo_closed [OF _ _ _ st_def st'_def])
       (simp_all add: negative_sensor_def raster_independent_stable band_eval)
  then show ?thesis
    by (simp add: f c' a' q')
qed

lemma borrow_prefix:
  "band_loop example_extern 1 0 [0..<1] (initial_state borrow_sensor example_out 7) = Continue borrow_state"
  unfolding borrow_state_def
  by (rule band_loop_closed) (simp_all add: borrow_sensor_def raster_independent_stable band_eval TMBandIndx_def)

lemma borrow_state_sel:
  "ctx borrow_state = borrow_sensor"
  "lndPixAlbedo borrow_state = example_out(0 := 3 / 10, 1 := 1 / 5)"
  by (simp_all add: borrow_state_def borrow_sensor_def band_eval TMBandIndx_def fun_eq_iff)

lemma band_loop_stops_at:
  assumes "k < n" "band_loop X icls col [0..<k] st = Continue m" "band_fails X (ctx m) icls k"
  shows "band_loop X icls col [0..<n] st = Return_FAILURE m"
proof -
  have "[0..<n] = [0..<k] @ [k..<n]"
    using upt_add_eq_append [of 0 k "n - k"] assms(1) by simp
  also have "[k..<n] = k # [Suc k..<n]"
    using assms(1) by (rule upt_conv_Cons)
  finally show ?thesis
    by (simp add: band_loop_append assms(2,3) band_body_eq)
qed

lemma borrow_call:
  "CalculateAlbedo example_extern borrow_sensor example_out 0 0 7 0
     = Returned FAILURE borrow_sensor (example_out(0 := 3 / 10, 1 := 1 / 5)) 7"
proof -
  have f: "band_fails example_extern (ctx borrow_state) 1 1"
    by (simp add: borrow_state_sel band_fails_def BRDFava_flg_def borrow_sensor_def TMBandIndx_def)
  have "band_loop example_extern 1 0 [0..<6] (initial_state borrow_sensor example_out 7)
     = Return_FAILURE borrow_state"
    by (rule band_loop_stops_at [OF _ borrow_prefix f]) simp
  moreover have "QA borrow_state = 7"
    by (simp add: borrow_state_def)
  ultimately show ?thesis
    by (simp add: CalculateAlbedo_def Let_def borrow_sensor_def borrow_state_sel [unfolded borrow_sensor_def])
qed

lemma nodata_loop:
  "band_loop example_extern 1 0 [0..<6] (initial_state nodata_sensor example_out 7) = Continue nodata_state"
  unfolding nodata_state_def
  by (rule band_loop_closed) (simp_all add: nodata_sensor_def raster_independent_stable band_eval)

lemma negative_band_0:
  "band_body example_extern 1 0 0 (initial_state negative_sensor example_out 7)
     = Continue (band_state example_extern 1 0 0 (initial_state negative_sensor example_out 7))"
  by (simp add: band_body_eq negative_sensor_def band_eval)

lemma low_call:
  "CalculateAlbedo example_extern low_sensor example_out 0 0 7 0
     = Returned SUCCESS low_sensor low_out 4"
proof -
  define st where "st = loop_state example_extern low_sensor (Clsdata low_sensor 0) 0
     [0..<nat (nbands low_sensor)] (initial_state low_sensor example_out 7)"
  define st' where "st' = broadband (TM_coefficents_sw (instrument low_sensor) 0) 0 (assign_QA st)"
  have c: "ctx st = low_sensor"
    by (simp add: st_def low_sensor_def upt_6 band_eval fun_eq_iff)
  have a: "lndPixAlbedo st = example_out(0 := - (1 / 2000), 1 := - (1 / 2000), 2 := - (1 / 2000),
     3 := - (1 / 2000), 4 := - (1 / 2000), 5 := - (1 / 2000), 6 := - (1 / 2000),
     7 := - (1 / 2000), 8 := - (1 / 2000), 9 := - (1 / 2000), 10 := - (1 / 2000),
     11 := - (1 / 2000))"
    by (simp add: st_def low_sensor_def upt_6 band_eval)
  have f: "lndSR_flag st = 0"
    by (simp add: st_def low_sensor_def upt_6 band_eval)
  have n: "nbands (ctx (assign_QA st)) \<le> 6"
    by (simp add: c low_sensor_def)
  have a': "lndPixAlbedo st' = low_out"
    unfolding st'_def broadband_eq [OF n]
    by (simp add: a c low_sensor_def low_out_def upt_6 broadband_eval)
  have q': "QA st' = 4"
    unfolding st'_def broadband_eq [OF n]
    by (simp add: a c low_sensor_def upt_6 broadband_eval)
  have c': "ctx st' = low_sensor"
    unfolding st'_def by (simp add: c)
  have "CalculateAlbedo example_extern low_sensor example_out 0 0 7 0 =
     (if lndSR_flag st \<noteq> 0 then Returned FAILURE (ctx st) (lndPixAlbedo st) (- 1)
      else Returned SUCCESS (ctx st') (lndPixAlbedo st') (QA st'))"
    by (rule CalculateAlbedo_closed [OF _ _ _ st_def st'_def])
       (simp_all add: low_sensor_def raster_independent_stable band_eval)
  then show ?thesis
    by (simp add: f c' a' q')
qed

section \<open>The specification\<close>

subsection \<open>The broadband rescue\<close>

text \<open>
  C1 (evaluation at the input where the code departs from the claim). For the legacy
  instrument and a reflectance of zero in every band, the narrow-band albedos are zero, so
  each broadband accumulator holds the intercept of its table, which is negative. The
  Lambertian block then adds the Lambertian sum and the intercept to the value already in
  the slot, which is not reset: the shortwave slots end at -0.0126, twice the intercept,
  where the Lambertian sum plus the intercept is -0.0063. The quality code is 4.
\<close>

theorem rescue_at_zero_reflectance:
  "CalculateAlbedo example_extern zero_sensor example_out 0 0 7 0
     = Returned SUCCESS zero_sensor
         (example_out(0 := 0, 1 := 0, 2 := 0, 3 := 0, 4 := 0, 5 := 0, 6 := 0, 7 := 0, 8 := 0,
            9 := 0, 10 := 0, 11 := 0, 12 := - 0.0126, 13 := - 0.0126, 14 := - 0.0066,
            15 := - 0.0066, 16 := - 0.0074, 17 := - 0.0074)) 4
   \<and> lambert_sum (TM_coefficents_sw (instrument zero_sensor) 0) zero_sensor 0
         [0..<nat (nbands zero_sensor)]
       + TM_coefficents_sw (instrument zero_sensor) 0 ! 6 = - 0.0063"
proof -
  define st where "st = loop_state example_extern zero_sensor (Clsdata zero_sensor 0) 0
     [0..<nat (nbands zero_sensor)] (initial_state zero_sensor example_out 7)"
  define st' where "st' = broadband (TM_coefficents_sw (instrument zero_sensor) 0) 0 (assign_QA st)"
  have c: "ctx st = zero_sensor"
    by (simp add: st_def zero_sensor_def upt_6 band_eval fun_eq_iff)
  have a: "lndPixAlbedo st = example_out(0 := 0, 1 := 0, 2 := 0, 3 := 0, 4 := 0, 5 := 0, 6 := 0, 7 := 0, 8 := 0,
            9 := 0, 10 := 0, 11 := 0)"
    by (simp add: st_def zero_sensor_def upt_6 band_eval)
  have f: "lndSR_flag st = 0"
    by (simp add: st_def zero_sensor_def upt_6 band_eval)
  have n: "nbands (ctx (assign_QA st)) \<le> 6"
    by (simp add: c zero_sensor_def)
  have a': "lndPixAlbedo st' = example_out(0 := 0, 1 := 0, 2 := 0, 3 := 0, 4 := 0, 5 := 0, 6 := 0, 7 := 0, 8 := 0,
            9 := 0, 10 := 0, 11 := 0, 12 := - 0.0126, 13 := - 0.0126, 14 := - 0.0066,
            15 := - 0.0066, 16 := - 0.0074, 17 := - 0.0074)"
    unfolding st'_def broadband_eq [OF n]
    by (simp add: a c zero_sensor_def upt_6 broadband_eval)
  have q': "QA st' = 4"
    unfolding st'_def broadband_eq [OF n]
    by (simp add: a c zero_sensor_def upt_6 broadband_eval)
  have c': "ctx st' = zero_sensor"
    unfolding st'_def broadband_eq [OF n] by (simp add: c)
  have "CalculateAlbedo example_extern zero_sensor example_out 0 0 7 0 =
     (if lndSR_flag st \<noteq> 0 then Returned FAILURE (ctx st) (lndPixAlbedo st) (- 1)
      else Returned SUCCESS (ctx st') (lndPixAlbedo st') (QA st'))"
    by (rule CalculateAlbedo_closed [OF _ _ _ st_def st'_def])
       (simp_all add: zero_sensor_def raster_independent_stable band_eval)
  moreover have "lambert_sum (TM_coefficents_sw (instrument zero_sensor) 0) zero_sensor 0
         [0..<nat (nbands zero_sensor)]
       + TM_coefficents_sw (instrument zero_sensor) 0 ! 6 = - 0.0063"
    by (simp add: zero_sensor_def upt_6 broadband_eval)
  ultimately show ?thesis
    by (simp add: f c' a' q')
qed


subsection \<open>Constraining the reflectance\<close>





subsection \<open>The branch taken for a band\<close>





subsection \<open>Fill reflectance\<close>

text \<open>
  C4 as stated fails: for a pixel whose class index is the fill class, the call returns
  \<^verbatim>\<open>FAILURE\<close> before it looks at the reflectance, and the quality code stays what the
  caller passed in (here 7), whatever the reflectance.
\<close>

theorem fill_failure_counterexample:
  "sint (OneRowlndSR fill_sensor 0 0) = SR_fillValue fill_sensor
   \<and> CalculateAlbedo example_extern fill_sensor example_out 0 0 7 0
       = Returned FAILURE fill_sensor example_out 7"
  by (simp add: CalculateAlbedo_invalid fill_sensor_def)

text \<open>
  C4, amended. For a pixel whose class index passes the validation and whose band loop runs
  through all active bands (at most six; no failed closest-class search, no exit on the
  ratio computation): if the reflectance of at least one active band equals the fill value,
  the call sets the quality code to -1, returns \<^verbatim>\<open>FAILURE\<close> and leaves the output slots
  from 12 on, so the broadband slots 12 to 17, as they were.
\<close>

theorem fill_failure:
  assumes "\<not> (Clsdata s col = Cls_fillValue s \<or> Clsdata s col > actu_ncls s \<or> Clsdata s col < 0)"
    and "nbands s \<le> 6"
    and "band_loop X (Clsdata s col) col [0..<nat (nbands s)] (initial_state s out qa) = Continue st"
    and "b < nat (nbands s)"
    and "sint (OneRowlndSR s b col) = SR_fillValue s"
  shows "CalculateAlbedo X s out row col qa snow = Returned FAILURE (ctx st) (lndPixAlbedo st) (- 1)
     \<and> (\<forall>i\<ge>12. lndPixAlbedo st i = out i)"
proof -
  have stop: "stopped (band_loop X (Clsdata s col) col [0..<nat (nbands s)] (initial_state s out qa)) st"
    using assms(3) by (simp add: stopped_def)
  have "lndSR_flag (initial_state s out qa) < lndSR_flag st"
    using assms(4,5) by (intro band_loop_fill_flag [OF assms(3), of b]) simp_all
  then have f: "lndSR_flag st \<noteq> 0" by simp
  have a: "lndPixAlbedo st i = out i" if "12 \<le> i" for i
  proof -
    have "\<forall>b\<in>set [0..<nat (nbands s)]. i \<noteq> b * 2 \<and> i \<noteq> b * 2 + 1"
      using that assms(2) by auto
    from band_loop_frame(4) [OF stop this] show ?thesis by simp
  qed
  show ?thesis
    using a by (simp add: CalculateAlbedo_valid [OF assms(1)] assms(3) f)
qed

theorem fill_failure_witness:
  "band_loop example_extern (Clsdata nodata_sensor 0) 0 [0..<nat (nbands nodata_sensor)]
       (initial_state nodata_sensor example_out 7) = Continue nodata_state
   \<and> sint (OneRowlndSR nodata_sensor 2 0) = SR_fillValue nodata_sensor
   \<and> CalculateAlbedo example_extern nodata_sensor example_out 0 0 7 0
       = Returned FAILURE (ctx nodata_state) (lndPixAlbedo nodata_state) (- 1)
   \<and> lndPixAlbedo nodata_state 12 = example_out 12"
proof -
  have v: "\<not> (Clsdata nodata_sensor 0 = Cls_fillValue nodata_sensor
            \<or> Clsdata nodata_sensor 0 > actu_ncls nodata_sensor \<or> Clsdata nodata_sensor 0 < 0)"
    by (simp add: nodata_sensor_def)
  have n: "nbands nodata_sensor \<le> 6" by (simp add: nodata_sensor_def)
  have l: "band_loop example_extern (Clsdata nodata_sensor 0) 0 [0..<nat (nbands nodata_sensor)]
       (initial_state nodata_sensor example_out 7) = Continue nodata_state"
    using nodata_loop by (simp add: nodata_sensor_def)
  have b: "2 < nat (nbands nodata_sensor)" by (simp add: nodata_sensor_def)
  have f: "sint (OneRowlndSR nodata_sensor 2 0) = SR_fillValue nodata_sensor"
    by (simp add: nodata_sensor_def)
  from fill_failure [OF v n l b f, of 0 0] l f show ?thesis
    by simp
qed


subsection \<open>A class with usable parameters\<close>





subsection \<open>The quality code\<close>

text \<open>
  C6. When the band loop has run through all active bands and no band was fill, the
  quality code passed on to the broadband conversion is given by the first matching rule of
  \<open>QA_rules\<close>, in that order, over the tallies and the number of active bands: code 0 when
  the high-confidence tally equals the band count, code 1 when high-confidence plus
  marginal-confidence equals it, code 2 when borrowed-class plus high-confidence plus
  marginal-confidence equals it, code 3 when the negative-anisotropy tally is positive; when
  no rule matches, it is the code the caller passed in.
\<close>

theorem QA_classifier_first_match:
  assumes "\<not> (Clsdata s col = Cls_fillValue s \<or> Clsdata s col > actu_ncls s \<or> Clsdata s col < 0)"
    and "band_loop X (Clsdata s col) col [0..<nat (nbands s)] (initial_state s out qa) = Continue st"
    and "lndSR_flag st = 0"
  shows "assign_QA st = st\<lparr>QA := first_match (QA_rules (tmpQA st) (nbands s)) qa\<rparr>
     \<and> CalculateAlbedo X s out row col qa snow =
         Returned SUCCESS
           (ctx (broadband (TM_coefficents_sw (instrument s) snow) col
                  (st\<lparr>QA := first_match (QA_rules (tmpQA st) (nbands s)) qa\<rparr>)))
           (lndPixAlbedo (broadband (TM_coefficents_sw (instrument s) snow) col
                  (st\<lparr>QA := first_match (QA_rules (tmpQA st) (nbands s)) qa\<rparr>)))
           (QA (broadband (TM_coefficents_sw (instrument s) snow) col
                  (st\<lparr>QA := first_match (QA_rules (tmpQA st) (nbands s)) qa\<rparr>)))"
proof -
  have stop: "stopped (band_loop X (Clsdata s col) col [0..<nat (nbands s)] (initial_state s out qa)) st"
    using assms(2) by (simp add: stopped_def)
  have q: "QA st = qa"
    using band_loop_frame(2) [OF stop] by simp
  have n: "nbands (ctx st) = nbands s"
    using only_raster_fields(2) [OF band_loop_frame(1) [OF stop]] by simp
  have a: "assign_QA st = st\<lparr>QA := first_match (QA_rules (tmpQA st) (nbands s)) qa\<rparr>"
    by (simp add: assign_QA_first_match q n)
  show ?thesis
    using assms(3) by (simp add: CalculateAlbedo_valid [OF assms(1)] assms(2) a [symmetric])
qed

theorem QA_classifier_first_match_witness:
  "band_loop example_extern (Clsdata example_sensor 0) 0 [0..<nat (nbands example_sensor)]
      (initial_state example_sensor example_out 7) = Continue example_loop_state
   \<and> lndSR_flag example_loop_state = 0
   \<and> assign_QA example_loop_state = example_loop_state\<lparr>QA := 0\<rparr>"
proof -
  have v: "\<not> (Clsdata example_sensor 0 = Cls_fillValue example_sensor
            \<or> Clsdata example_sensor 0 > actu_ncls example_sensor \<or> Clsdata example_sensor 0 < 0)"
    by simp
  have l: "band_loop example_extern (Clsdata example_sensor 0) 0 [0..<nat (nbands example_sensor)]
      (initial_state example_sensor example_out 7) = Continue example_loop_state"
    unfolding example_loop_state_def
    by (simp, intro band_loop_closed) (simp_all add: raster_independent_stable band_eval)
  have f: "lndSR_flag example_loop_state = 0"
    by (simp add: example_loop_state_def upt_6 band_eval)
  have t: "tmpQA example_loop_state 0 = 6"
    by (simp add: example_loop_state_def upt_6 band_eval)
  from QA_classifier_first_match [OF v l f, of 0 0]
  have "assign_QA example_loop_state
     = example_loop_state\<lparr>QA := first_match (QA_rules (tmpQA example_loop_state) (nbands example_sensor)) 7\<rparr>"
    by simp
  then show ?thesis
    using l f by (simp add: first_match_def QA_rules_def t)
qed


subsection \<open>What a call writes\<close>

text \<open>
  C7 as stated fails: the call writes the reflectance raster. For the sample pixel with a
  reflectance of -5 in every band, the raster entries of the six bands at the pixel's column
  are 0 after the call.
\<close>

theorem raster_written_counterexample:
  "CalculateAlbedo example_extern negative_sensor example_out 0 0 7 0
     = Returned SUCCESS negative_after negative_out 4
   \<and> OneRowlndSR negative_after 0 0 \<noteq> OneRowlndSR negative_sensor 0 0"
  using negative_call by (simp add: negative_after_def negative_sensor_def)

text \<open>
  C7, amended. Of the sensor context a call writes the reflectance raster only, and there
  only the entries of the active bands at the pixel's column; such an entry keeps its value
  or becomes its constrained value \<open>clamp_SR\<close> (0 for a negative reflectance, the truncated
  0.99 / scale factor for one of at least 1.2 / scale factor). The class raster, the purity
  counts, the BRDF parameters and every other field are the same before and after the call.
  The coefficient tables are constants.
\<close>

theorem sensor_frame:
  assumes "CalculateAlbedo X s out row col qa snow = Returned r s' out' qa'"
  shows "s' = s\<lparr>OneRowlndSR := OneRowlndSR s'\<rparr>
     \<and> (\<forall>b c. \<not> (b < nat (nbands s) \<and> c = col) \<longrightarrow> OneRowlndSR s' b c = OneRowlndSR s b c)
     \<and> (\<forall>b. OneRowlndSR s' b col = OneRowlndSR s b col
            \<or> OneRowlndSR s' b col = clamp_SR (lndSR_ScaFct s) (OneRowlndSR s b col))"
proof -
  from CalculateAlbedo_Returned [OF assms] show ?thesis
  proof
    assume "s' = s"
    then show ?thesis by simp
  next
    assume "\<exists>st. stopped (band_loop X (Clsdata s col) col [0..<nat (nbands s)] (initial_state s out qa)) st
                   \<and> s' = ctx st"
    then obtain st where
      st: "stopped (band_loop X (Clsdata s col) col [0..<nat (nbands s)] (initial_state s out qa)) st"
      and s': "s' = ctx st" by blast
    have 1: "s' = s\<lparr>OneRowlndSR := OneRowlndSR s'\<rparr>"
      using band_loop_frame(1) [OF st] by (simp add: only_raster_def s')
    have 2: "OneRowlndSR s' b c = OneRowlndSR s b c" if "\<not> (b < nat (nbands s) \<and> c = col)" for b c
      using band_loop_frame(3) [OF st, of b c] that by (auto simp add: s')
    have 3: "OneRowlndSR s' b col = OneRowlndSR s b col
            \<or> OneRowlndSR s' b col = clamp_SR (lndSR_ScaFct s) (OneRowlndSR s b col)" for b
      using band_loop_cells [OF st, of b] by (simp add: s')
    from 1 2 3 show ?thesis by blast
  qed
qed

theorem sensor_frame_witness:
  "CalculateAlbedo example_extern negative_sensor example_out 0 0 7 0
     = Returned SUCCESS negative_after negative_out 4
   \<and> negative_after = negative_sensor\<lparr>OneRowlndSR := OneRowlndSR negative_after\<rparr>
   \<and> OneRowlndSR negative_after 7 0 = OneRowlndSR negative_sensor 7 0"
  using sensor_frame [OF negative_call] negative_call
  by (simp add: negative_sensor_def)


subsection \<open>Calling twice\<close>




subsection \<open>Failure of the closest-class search\<close>

text \<open>
  C9 as stated fails: the bands before the failing one have written their output slots.
  For the sample pixel whose class has no parameters at the second band, with no closest
  class, the call fails at the second band, after the first band has written slots 0 and 1.
\<close>

theorem closest_class_failure_counterexample:
  "CalculateAlbedo example_extern borrow_sensor example_out 0 0 7 0
     = Returned FAILURE borrow_sensor (example_out(0 := 3 / 10, 1 := 1 / 5)) 7
   \<and> (example_out(0 := 3 / 10, 1 := 1 / 5)) 0 \<noteq> example_out 0"
  using borrow_call by (simp add: example_out_def)

text \<open>
  C9, amended. When the loop reaches a band \<open>k\<close> whose class parameters are all zero and
  the closest-class search returns -1 there, the call returns \<^verbatim>\<open>FAILURE\<close> at once, with
  the state reached after the bands before \<open>k\<close>: the quality code is the caller's, and the
  output slots of band \<open>k\<close>, of the later bands and of the broadband products (every slot
  from 2k on), like the raster rows of band \<open>k\<close> and the later bands, are as before the
  call. The slots and raster entries of the bands before \<open>k\<close> keep what the loop wrote.
\<close>

theorem closest_class_failure:
  assumes "\<not> (Clsdata s col = Cls_fillValue s \<or> Clsdata s col > actu_ncls s \<or> Clsdata s col < 0)"
    and "k < nat (nbands s)"
    and "band_loop X (Clsdata s col) col [0..<k] (initial_state s out qa) = Continue st"
    and "BRDFava_flg (ctx st) (Clsdata s col) (TMBandIndx ! k)"
    and "getClosestCls X (ctx st) (Clsdata s col) (TMBandIndx ! k) = - 1"
  shows "CalculateAlbedo X s out row col qa snow = Returned FAILURE (ctx st) (lndPixAlbedo st) qa
     \<and> (\<forall>i\<ge>2 * k. lndPixAlbedo st i = out i)
     \<and> (\<forall>b\<ge>k. OneRowlndSR (ctx st) b = OneRowlndSR s b)"
proof -
  have stop: "stopped (band_loop X (Clsdata s col) col [0..<k] (initial_state s out qa)) st"
    using assms(3) by (simp add: stopped_def)
  have f: "band_fails X (ctx st) (Clsdata s col) k"
    using assms(4,5) by (simp add: band_fails_def)
  have l: "band_loop X (Clsdata s col) col [0..<nat (nbands s)] (initial_state s out qa) = Return_FAILURE st"
    by (rule band_loop_stops_at [OF assms(2,3) f])
  have q: "QA st = qa"
    using band_loop_frame(2) [OF stop] by simp
  have a: "lndPixAlbedo st i = out i" if "2 * k \<le> i" for i
    using band_loop_frame(4) [OF stop, of i] that by auto
  have r: "OneRowlndSR (ctx st) b = OneRowlndSR s b" if "k \<le> b" for b
    using band_loop_frame(3) [OF stop, of b] that by (auto simp add: fun_eq_iff)
  show ?thesis
    using a r by (simp add: CalculateAlbedo_valid [OF assms(1)] l q)
qed

theorem closest_class_failure_witness:
  "band_loop example_extern (Clsdata borrow_sensor 0) 0 [0..<1] (initial_state borrow_sensor example_out 7)
     = Continue borrow_state
   \<and> BRDFava_flg (ctx borrow_state) (Clsdata borrow_sensor 0) (TMBandIndx ! 1)
   \<and> getClosestCls example_extern (ctx borrow_state) (Clsdata borrow_sensor 0) (TMBandIndx ! 1) = - 1
   \<and> CalculateAlbedo example_extern borrow_sensor example_out 0 0 7 0
       = Returned FAILURE (ctx borrow_state) (lndPixAlbedo borrow_state) 7
   \<and> lndPixAlbedo borrow_state 12 = example_out 12"
proof -
  have c: "Clsdata borrow_sensor 0 = 1" by (simp add: borrow_sensor_def)
  have v: "\<not> (Clsdata borrow_sensor 0 = Cls_fillValue borrow_sensor
            \<or> Clsdata borrow_sensor 0 > actu_ncls borrow_sensor \<or> Clsdata borrow_sensor 0 < 0)"
    by (simp add: borrow_sensor_def)
  have k: "1 < nat (nbands borrow_sensor)" by (simp add: borrow_sensor_def)
  have l: "band_loop example_extern (Clsdata borrow_sensor 0) 0 [0..<1] (initial_state borrow_sensor example_out 7)
     = Continue borrow_state"
    unfolding c by (rule borrow_prefix)
  have b: "BRDFava_flg (ctx borrow_state) (Clsdata borrow_sensor 0) (TMBandIndx ! 1)"
    by (simp add: borrow_state_sel BRDFava_flg_def borrow_sensor_def TMBandIndx_def)
  have g: "getClosestCls example_extern (ctx borrow_state) (Clsdata borrow_sensor 0) (TMBandIndx ! 1) = - 1"
    by simp
  from closest_class_failure [OF v k l b g, of 0 0] l b g show ?thesis
    by simp
qed


subsection \<open>Coefficient selection\<close>



end
